theory Spec2Isabelle
  imports Main "HOL-Library.Sublist"
begin

section \<open>JavaScript strings\<close>

text \<open>
  Strings are lists of code units.  The code units modelled are the 256 Latin-1 ones, so
  the white space that \<^verbatim>\<open>String.prototype.trim\<close> strips is TAB, LF, VT, FF, CR,
  SPACE and NBSP.
\<close>

definition isWhiteSpace :: "char \<Rightarrow> bool" where
  "isWhiteSpace c =
     (c \<in> set [CHR 0x09, CHR 0x0A, CHR 0x0B, CHR 0x0C, CHR 0x0D, CHR 0x20, CHR 0xA0])"

definition trim :: "string \<Rightarrow> string" where
  "trim s = rev (dropWhile isWhiteSpace (rev (dropWhile isWhiteSpace s)))"

text \<open>
  \<^verbatim>\<open>s.split(sep)\<close> for a string separator: the pieces between the non-overlapping
  occurrences of \<open>sep\<close>, found from the left.  \<open>acc\<close> holds the current piece, reversed.
  An empty separator splits into code units.
\<close>

fun split_from :: "string \<Rightarrow> string \<Rightarrow> string \<Rightarrow> string list" where
  "split_from sep acc [] = [rev acc]"
| "split_from sep acc (c # cs) =
     (if sep \<noteq> [] \<and> prefix sep (c # cs)
      then rev acc # split_from sep [] (drop (length sep - 1) cs)
      else split_from sep (c # acc) cs)"

definition split :: "string \<Rightarrow> string \<Rightarrow> string list" where
  "split sep s = (if sep = [] then map (\<lambda>c. [c]) s else split_from sep [] s)"

section \<open>The operator pattern of parseFilterExpression\<close>

text \<open>
  The regular expression \<^verbatim>\<open>/<=>|>=|<=|=|>|<|~|#/\<close> is a disjunction of literals.
  \<^verbatim>\<open>exec\<close> tries the start positions from the left and, at each position, the
  alternatives in the order they are written; it returns the matched text and its index.
\<close>

definition operators :: "string list" where
  "operators = [''<=>'', ''>='', ''<='', ''='', ''>'', ''<'', ''~'', ''#'']"

fun regex_exec :: "string list \<Rightarrow> string \<Rightarrow> (nat \<times> string) option" where
  "regex_exec alts [] =
     (case find (\<lambda>a. prefix a []) alts of Some a \<Rightarrow> Some (0, a) | None \<Rightarrow> None)"
| "regex_exec alts (c # cs) =
     (case find (\<lambda>a. prefix a (c # cs)) alts of
        Some a \<Rightarrow> Some (0, a)
      | None \<Rightarrow> map_option (\<lambda>(i, a). (Suc i, a)) (regex_exec alts cs))"

text \<open>The text \<open>op\<close> stands in \<open>s\<close> at index \<open>i\<close>.\<close>

definition occurs_at :: "string \<Rightarrow> string \<Rightarrow> nat \<Rightarrow> bool" where
  "occurs_at op s i = (i \<le> length s \<and> prefix op (drop i s))"

section \<open>Plain objects\<close>

text \<open>
  A plain object is the list of its own properties in the order they were created.
  Assigning to an existing key keeps the key's position; a new key goes last.
  The names inherited from \<^verbatim>\<open>Object.prototype\<close> are not modelled.
\<close>

fun obj_get :: "(string \<times> 'v) list \<Rightarrow> string \<Rightarrow> 'v option" where
  "obj_get [] k = None"
| "obj_get ((k', v) # ps) k = (if k' = k then Some v else obj_get ps k)"

fun obj_set :: "(string \<times> 'v) list \<Rightarrow> string \<Rightarrow> 'v \<Rightarrow> (string \<times> 'v) list" where
  "obj_set [] k v = [(k, v)]"
| "obj_set ((k', v') # ps) k v =
     (if k' = k then (k, v) # ps else (k', v') # obj_set ps k v)"

section \<open>Expression parser\<close>

datatype js_error = Error string | TypeError

type_synonym conditions = "(string \<times> string list list) list"

text \<open>
  The body of the \<^verbatim>\<open>map\<close> callback of parseFilterExpression, run over the clauses in
  order.  \<^verbatim>\<open>filter[tablename]\<close> is read under the name as given; when that key does
  not exist the read is \<^verbatim>\<open>undefined\<close> and \<^verbatim>\<open>.push\<close> raises a TypeError.
\<close>

fun filter_clauses :: "string \<Rightarrow> string list \<Rightarrow> conditions \<Rightarrow> js_error + conditions" where
  "filter_clauses tablename [] fobj = Inr fobj"
| "filter_clauses tablename (f1 # rest) fobj =
     (case regex_exec operators f1 of
        None \<Rightarrow> Inl (Error (''Filter operation not suported in: '' @ f1))
      | Some (i, m) \<Rightarrow>
          (let op = trim m;
               condition = map trim (op # split op f1)
           in case obj_get fobj tablename of
                None \<Rightarrow> Inl TypeError
              | Some arr \<Rightarrow>
                  filter_clauses tablename rest (obj_set fobj tablename (arr @ [condition]))))"

definition parseFilterExpression :: "string \<Rightarrow> string \<Rightarrow> js_error + conditions" where
  "parseFilterExpression filterExpr tablename =
     filter_clauses tablename (split '';'' filterExpr) (obj_set [] (trim tablename) [])"

text \<open>
  The callback of parsePaginationExpression.  The expression is the string that
  \<^verbatim>\<open>String(expression)\<close> gives; the caller of the model passes that string.
\<close>

fun pagination_params :: "string \<Rightarrow> string list \<Rightarrow> conditions \<Rightarrow> js_error + conditions" where
  "pagination_params tablename [] pagination = Inr pagination"
| "pagination_params tablename (f1 # rest) pagination =
     (let params = map trim (split ''='' f1)
      in case obj_get pagination tablename of
           None \<Rightarrow> Inl TypeError
         | Some arr \<Rightarrow>
             pagination_params tablename rest (obj_set pagination tablename (arr @ [params])))"

definition parsePaginationExpression :: "string \<Rightarrow> string \<Rightarrow> js_error + conditions" where
  "parsePaginationExpression expression tablename =
     pagination_params tablename (split '';'' expression) (obj_set [] (trim tablename) [])"

text \<open>
  The array that the callback of parseFilterExpression pushes for one clause:
  the operator first, then the pieces of \<^verbatim>\<open>f1.split(op)\<close>, every token trimmed.
\<close>

definition clause_condition :: "string \<Rightarrow> string list" where
  "clause_condition f1 =
     (case regex_exec operators f1 of
        None \<Rightarrow> []
      | Some (i, m) \<Rightarrow> map trim (trim m # split (trim m) f1))"

text \<open>
  The triple the specification describes for a clause: the operator chosen by the
  pattern, the text on its left as the field and the text on its right as the value.
\<close>

definition spec_triple :: "string \<Rightarrow> string list" where
  "spec_triple f1 =
     (case regex_exec operators f1 of
        None \<Rightarrow> []
      | Some (i, op) \<Rightarrow> [op, trim (take i f1), trim (drop (i + length op) f1)])"

section \<open>JavaScript values\<close>

text \<open>
  Numbers are the integers (fractions, infinities and NaN are not modelled).
  \<open>JObj\<close> is an object passed by value, \<open>JRef\<close> the address of an object that the
  caller shares with the code, and \<open>JThis\<close> the Resolver instance itself.
\<close>

datatype jsval =
    JUndefined
  | JNull
  | JBool bool
  | JNum int
  | JStr string
  | JArr "jsval list"
  | JObj "(string \<times> jsval) list"
  | JRef nat
  | JThis

type_synonym obj = "(string \<times> jsval) list"

text \<open>What \<^verbatim>\<open>!v\<close> and \<^verbatim>\<open>v ? a : b\<close> test.\<close>

fun truthy :: "jsval \<Rightarrow> bool" where
  "truthy JUndefined = False"
| "truthy JNull = False"
| "truthy (JBool b) = b"
| "truthy (JNum n) = (n \<noteq> 0)"
| "truthy (JStr s) = (s \<noteq> [])"
| "truthy (JArr xs) = True"
| "truthy (JObj ps) = True"
| "truthy (JRef a) = True"
| "truthy JThis = True"

fun digits :: "nat \<Rightarrow> string" where
  "digits n =
     (if n < 10 then [''0123456789'' ! n]
      else digits (n div 10) @ [''0123456789'' ! (n mod 10)])"

declare digits.simps [simp del]

fun join :: "string \<Rightarrow> string list \<Rightarrow> string" where
  "join sep [] = []"
| "join sep [x] = x"
| "join sep (x # y # ys) = x @ sep @ join sep (y # ys)"

text \<open>The string that \<^verbatim>\<open>String(v)\<close> and \<^verbatim>\<open>'' + v\<close> produce.\<close>

fun to_string :: "jsval \<Rightarrow> string" where
  "to_string JUndefined = ''undefined''"
| "to_string JNull = ''null''"
| "to_string (JBool b) = (if b then ''true'' else ''false'')"
| "to_string (JNum n) = (if n < 0 then ''-'' @ digits (nat (- n)) else digits (nat n))"
| "to_string (JStr s) = s"
| "to_string (JArr xs) =
     join '','' (map (\<lambda>x. if x = JUndefined \<or> x = JNull then [] else to_string x) xs)"
| "to_string (JObj ps) = ''[object Object]''"
| "to_string (JRef a) = ''[object Object]''"
| "to_string JThis = ''[object Object]''"

text \<open>
  \<^verbatim>\<open>v[k]\<close>: a TypeError on \<^verbatim>\<open>undefined\<close> and \<^verbatim>\<open>null\<close>, the own property of
  an object passed by value, and \<^verbatim>\<open>undefined\<close> for a key that is not there.
  Properties of primitive values and of arrays are not modelled.
\<close>

fun get_prop :: "jsval \<Rightarrow> string \<Rightarrow> js_error + jsval" where
  "get_prop JUndefined k = Inl TypeError"
| "get_prop JNull k = Inl TypeError"
| "get_prop (JObj ps) k = Inr (case obj_get ps k of None \<Rightarrow> JUndefined | Some v \<Rightarrow> v)"
| "get_prop v k = Inr JUndefined"

text \<open>
  \<^verbatim>\<open>if (!o[ns]) o[ns] = {}; o[ns][name] = v\<close> on a two-level object.
\<close>

definition obj_set2 ::
  "(string \<times> (string \<times> 'v) list) list \<Rightarrow> string \<Rightarrow> string \<Rightarrow> 'v \<Rightarrow> (string \<times> (string \<times> 'v) list) list"
where
  "obj_set2 ob ns name v =
     (let ob1 = (case obj_get ob ns of None \<Rightarrow> obj_set ob ns [] | Some inner \<Rightarrow> ob)
      in case obj_get ob1 ns of
           None \<Rightarrow> ob1
         | Some inner \<Rightarrow> obj_set ob1 ns (obj_set inner name v))"

definition obj_get2 :: "(string \<times> (string \<times> 'v) list) list \<Rightarrow> string \<Rightarrow> string \<Rightarrow> 'v option" where
  "obj_get2 ob ns name = (case obj_get ob ns of None \<Rightarrow> None | Some inner \<Rightarrow> obj_get inner name)"

section \<open>State\<close>

text \<open>
  The objects shared by reference, by address, the next free address, and the state of
  everything outside this code (the database, counters of the callbacks).
\<close>

record 'w state =
  objs :: "nat \<Rightarrow> obj"
  next_addr :: nat
  world :: 'w

type_synonym 'w action = "'w state \<Rightarrow> (js_error + jsval) \<times> 'w state"

definition alloc :: "obj \<Rightarrow> 'w state \<Rightarrow> nat \<times> 'w state" where
  "alloc ps s = (next_addr s, s\<lparr>objs := (objs s)(next_addr s := ps), next_addr := Suc (next_addr s)\<rparr>)"

definition set_field :: "nat \<Rightarrow> string \<Rightarrow> jsval \<Rightarrow> 'w state \<Rightarrow> 'w state" where
  "set_field a k v s = s\<lparr>objs := (objs s)(a := obj_set (objs s a) k v)\<rparr>"

section \<open>The driver collaborator\<close>

record foreign_key =
  fk_tablename :: string
  fk_columnname :: string

record column =
  col_name :: string
  nativeType :: string
  foreign :: "foreign_key option"

record reverse_relation =
  ftablename :: string
  fcolumnname :: string
  columnname :: string

text \<open>
  One entry of \<^verbatim>\<open>dbSchema\<close>: the columns by name and the \<^verbatim>\<open>__reverse\<close> list,
  which the driver always provides.
\<close>

record table =
  columns :: "(string \<times> column) list"
  reverse :: "reverse_relation list"

record 'w driver =
  db :: jsval
  dbSchema :: "(string \<times> table) list"
  getTablesFromSchema :: "string list"
  getTableColumnsFromSchema :: "string \<Rightarrow> string list"
  getPrimaryKeyFromSchema :: "string \<Rightarrow> string"
  mapDbColumnToGraphqlType :: "string \<Rightarrow> column option \<Rightarrow> js_error + string"
  pageTotal :: "string \<Rightarrow> obj \<Rightarrow> 'w action"
  page :: "string \<Rightarrow> obj \<Rightarrow> 'w action"
  firstOf :: "string \<Rightarrow> obj \<Rightarrow> 'w action"
  putItem_driver :: "string \<Rightarrow> obj \<Rightarrow> 'w action"

section \<open>Resolver\<close>

text \<open>The parsed filter or pagination object as a value.\<close>

definition conditions_value :: "conditions \<Rightarrow> jsval" where
  "conditions_value c =
     JObj (map (\<lambda>(k, rows). (k, JArr (map (\<lambda>row. JArr (map JStr row)) rows))) c)"

text \<open>
  parseArgsCommon.  A truthy filter that is not a string has no \<^verbatim>\<open>split\<close> method,
  which is a TypeError; the pagination goes through \<^verbatim>\<open>String(expression)\<close>.
\<close>

definition parseArgsCommon :: "string \<Rightarrow> obj \<Rightarrow> js_error + obj" where
  "parseArgsCommon tablename args =
     (let localArgs = args;
          filter_arg = (case obj_get args ''filter'' of None \<Rightarrow> JUndefined | Some v \<Rightarrow> v);
          pagination_arg = (case obj_get args ''pagination'' of None \<Rightarrow> JUndefined | Some v \<Rightarrow> v)
      in case (if truthy filter_arg
               then (case filter_arg of
                       JStr s \<Rightarrow>
                         (case parseFilterExpression s tablename of
                            Inl e \<Rightarrow> Inl e
                          | Inr c \<Rightarrow> Inr (obj_set localArgs ''filter'' (conditions_value c)))
                     | _ \<Rightarrow> Inl TypeError)
               else Inr localArgs) of
           Inl e \<Rightarrow> Inl e
         | Inr localArgs1 \<Rightarrow>
             (if truthy pagination_arg
              then (case parsePaginationExpression (to_string pagination_arg) tablename of
                      Inl e \<Rightarrow> Inl e
                    | Inr c \<Rightarrow> Inr (obj_set localArgs1 ''pagination'' (conditions_value c)))
              else Inr localArgs1))"

definition GetPage ::
  "'w driver option \<Rightarrow> string \<Rightarrow> jsval \<Rightarrow> obj \<Rightarrow> nat option \<Rightarrow> 'w action" where
  "GetPage drv tablename parent args context s =
     (case parseArgsCommon tablename args of
        Inl e \<Rightarrow> (Inl e, s)
      | Inr args1 \<Rightarrow>
          (case drv of
             None \<Rightarrow> (Inl TypeError, s)
           | Some d \<Rightarrow>
               (case pageTotal d tablename args1 s of
                  (Inl e, s1) \<Rightarrow> (Inl e, s1)
                | (Inr tot, s1) \<Rightarrow>
                    (case page d tablename args1 s1 of
                       (Inl e, s2) \<Rightarrow> (Inl e, s2)
                     | (Inr items, s2) \<Rightarrow>
                         (Inr (JObj [(''total'', tot), (''tablename'', JStr tablename),
                                     (''items'', items)]), s2)))))"

definition GetFirstOf ::
  "'w driver option \<Rightarrow> string \<Rightarrow> jsval \<Rightarrow> obj \<Rightarrow> nat option \<Rightarrow> 'w action" where
  "GetFirstOf drv tablename parent args context s =
     (case parseArgsCommon tablename args of
        Inl e \<Rightarrow> (Inl e, s)
      | Inr args1 \<Rightarrow>
          (case drv of
             None \<Rightarrow> (Inl TypeError, s)
           | Some d \<Rightarrow> firstOf d tablename args1 s))"

text \<open>
  \<^verbatim>\<open>result[0]\<close>: the first element of an array, the first code unit of a string, the
  property \<open>0\<close> of an object, a TypeError on \<^verbatim>\<open>undefined\<close> and \<^verbatim>\<open>null\<close>.
\<close>

fun first_element :: "jsval \<Rightarrow> js_error + jsval" where
  "first_element (JArr []) = Inr JUndefined"
| "first_element (JArr (x # xs)) = Inr x"
| "first_element (JStr []) = Inr JUndefined"
| "first_element (JStr (c # cs)) = Inr (JStr [c])"
| "first_element v = get_prop v ''0''"

definition putItem ::
  "'w driver option \<Rightarrow> string \<Rightarrow> jsval \<Rightarrow> obj \<Rightarrow> nat option \<Rightarrow> 'w action" where
  "putItem drv tablename parent data context s =
     (case drv of
        None \<Rightarrow> (Inl TypeError, s)
      | Some d \<Rightarrow>
          (let pk = getPrimaryKeyFromSchema d tablename
           in case get_prop (case obj_get data ''input'' of None \<Rightarrow> JUndefined | Some v \<Rightarrow> v) pk of
                Inl e \<Rightarrow> (Inl e, s)
              | Inr id0 \<Rightarrow>
                  (case putItem_driver d tablename data s of
                     (Inl e, s1) \<Rightarrow> (Inl e, s1)
                   | (Inr result, s1) \<Rightarrow>
                       (case (if \<not> truthy id0
                              then first_element result
                              else Inr id0) of
                          Inl e \<Rightarrow> (Inl e, s1)
                        | Inr id1 \<Rightarrow>
                            firstOf d tablename
                              [(''filter'', JObj [(tablename, JArr [JArr [JStr ''='', JStr pk, id1]])])]
                              s1))))"

subsection \<open>The registry and the authorization hook\<close>

record 'w hook =
  validator :: "string \<Rightarrow> string \<Rightarrow> jsval \<Rightarrow> obj \<Rightarrow> nat \<Rightarrow> 'w action"
  rejected :: "string \<Rightarrow> string \<Rightarrow> jsval \<Rightarrow> obj \<Rightarrow> nat \<Rightarrow> 'w action"

type_synonym 'w handler = "jsval \<Rightarrow> obj \<Rightarrow> nat \<Rightarrow> 'w action"

text \<open>
  A registered function takes what the execution engine passes: the parent, the
  arguments (\<open>None\<close> for \<^verbatim>\<open>undefined\<close>) and the address of the context object
  (\<open>None\<close> for \<^verbatim>\<open>undefined\<close>).  It reads \<^verbatim>\<open>this.beforeHook\<close> when it is called, so
  the hook in force at the call is a parameter.
\<close>

type_synonym 'w entry = "'w hook \<Rightarrow> jsval \<Rightarrow> obj option \<Rightarrow> nat option \<Rightarrow> 'w action"

record 'w resolver =
  dbDriver :: "'w driver option"
  resolvers :: "(string \<times> (string \<times> 'w entry) list) list"
  beforeHook :: "'w hook"

definition default_hook :: "'w hook" where
  "default_hook =
     \<lparr>validator = (\<lambda>namespace name root args context s. (Inr (JBool True), s)),
      rejected = (\<lambda>namespace name root args context s. (Inr JNull, s))\<rparr>"

definition new_Resolver :: "'w driver option \<Rightarrow> 'w resolver" where
  "new_Resolver drv = \<lparr>dbDriver = drv, resolvers = [], beforeHook = default_hook\<rparr>"

text \<open>
  The first two statements of the function that \<^verbatim>\<open>add\<close> stores: the context
  object is the caller's, or a new empty object when the caller passes none, and
  \<^verbatim>\<open>context.ioc = { resolver: this, db }\<close> is an assignment on that object.
\<close>

definition context_with_ioc :: "'w driver option \<Rightarrow> nat option \<Rightarrow> 'w state \<Rightarrow> nat \<times> 'w state" where
  "context_with_ioc drv context0 s =
     (let (context, s1) = (case context0 of None \<Rightarrow> alloc [] s | Some a \<Rightarrow> (a, s));
          dbv = (case drv of None \<Rightarrow> JNull | Some d \<Rightarrow> db d)
      in (context, set_field context ''ioc'' (JObj [(''resolver'', JThis), (''db'', dbv)]) s1))"

text \<open>
  The function that \<^verbatim>\<open>add\<close> stores: the defaults of the parameters, the
  assignment of \<^verbatim>\<open>context.ioc\<close>, the validator, and then either the rejected
  callback or the handler.
\<close>

definition wrapped :: "'w driver option \<Rightarrow> string \<Rightarrow> string \<Rightarrow> 'w handler \<Rightarrow> 'w entry" where
  "wrapped drv namespace name cb hk root0 args0 context0 s =
     (let root = (if root0 = JUndefined then JNull else root0);
          args = (case args0 of None \<Rightarrow> [] | Some a \<Rightarrow> a);
          (context, s2) = context_with_ioc drv context0 s
      in case validator hk namespace name root args context s2 of
           (Inl e, s3) \<Rightarrow> (Inl e, s3)
         | (Inr passBefore, s3) \<Rightarrow>
             if \<not> truthy passBefore
             then rejected hk namespace name root args context s3
             else cb root args context s3)"

definition add :: "string \<Rightarrow> string \<Rightarrow> 'w handler \<Rightarrow> 'w resolver \<Rightarrow> 'w resolver" where
  "add namespace name cb R =
     R\<lparr>resolvers := obj_set2 (resolvers R) namespace name (wrapped (dbDriver R) namespace name cb)\<rparr>"

subsection \<open>Relation resolvers\<close>

text \<open>
  The filter that both relation resolvers write into \<^verbatim>\<open>args\<close>: the caller's filter
  and a semicolon when the caller's filter is truthy, then column, \<open>#\<close> and the value.
\<close>

definition relation_filter :: "obj \<Rightarrow> string \<Rightarrow> jsval \<Rightarrow> string" where
  "relation_filter args fcolumn v =
     (case obj_get args ''filter'' of
        None \<Rightarrow> []
      | Some f \<Rightarrow> if truthy f then to_string f @ '';'' else [])
     @ fcolumn @ ''#'' @ to_string v"

definition foreign_resolver :: "'w driver option \<Rightarrow> string \<Rightarrow> string \<Rightarrow> string \<Rightarrow> 'w entry" where
  "foreign_resolver drv column_name ftable fcolumn hk item args0 context s =
     (case get_prop item column_name of
        Inl e \<Rightarrow> (Inl e, s)
      | Inr v \<Rightarrow>
          if \<not> truthy v then (Inr JNull, s)
          else (case args0 of
                  None \<Rightarrow> (Inl TypeError, s)
                | Some args \<Rightarrow>
                    GetFirstOf drv ftable item
                      (obj_set args ''filter'' (JStr (relation_filter args fcolumn v))) context s))"

definition reverse_resolver :: "'w driver option \<Rightarrow> string \<Rightarrow> string \<Rightarrow> string \<Rightarrow> 'w entry" where
  "reverse_resolver drv field fcolumn local_column hk item args0 context s =
     (case args0 of
        None \<Rightarrow> (Inl TypeError, s)
      | Some args \<Rightarrow>
          (case get_prop item local_column of
             Inl e \<Rightarrow> (Inl e, s)
           | Inr v \<Rightarrow>
               GetPage drv field item
                 (obj_set args ''filter'' (JStr (relation_filter args fcolumn v))) context s))"

fun foreign_fields ::
  "'w driver \<Rightarrow> string \<Rightarrow> string \<Rightarrow> string list \<Rightarrow>
   (string \<times> (string \<times> 'w entry) list) list \<Rightarrow> js_error + (string \<times> (string \<times> 'w entry) list) list"
where
  "foreign_fields d queryName tablename [] rs = Inr rs"
| "foreign_fields d queryName tablename (c # cs) rs =
     (case obj_get (dbSchema d) tablename of
        None \<Rightarrow> Inl TypeError
      | Some tbl \<Rightarrow>
          (case obj_get (columns tbl) c of
             None \<Rightarrow> Inl TypeError
           | Some col \<Rightarrow>
               (case foreign col of
                  None \<Rightarrow> foreign_fields d queryName tablename cs rs
                | Some fk \<Rightarrow>
                    foreign_fields d queryName tablename cs
                      (obj_set2 rs queryName (c @ ''_'' @ fk_tablename fk)
                         (foreign_resolver (Some d) (col_name col) (fk_tablename fk) (fk_columnname fk))))))"

definition createForeignFieldsResolvers ::
  "(string \<Rightarrow> string) \<Rightarrow> string \<Rightarrow> 'w resolver \<Rightarrow> js_error + 'w resolver" where
  "createForeignFieldsResolvers toCamelCase tablename R =
     (case dbDriver R of
        None \<Rightarrow> Inl TypeError
      | Some d \<Rightarrow>
          (case foreign_fields d (toCamelCase tablename) tablename
                  (getTableColumnsFromSchema d tablename) (resolvers R) of
             Inl e \<Rightarrow> Inl e
           | Inr rs \<Rightarrow> Inr (R\<lparr>resolvers := rs\<rparr>)))"

fun reverse_fields ::
  "'w driver \<Rightarrow> string \<Rightarrow> reverse_relation list \<Rightarrow>
   (string \<times> (string \<times> 'w entry) list) list \<Rightarrow> (string \<times> (string \<times> 'w entry) list) list"
where
  "reverse_fields d queryName [] rs = rs"
| "reverse_fields d queryName (r # rest) rs =
     reverse_fields d queryName rest
       (obj_set2 rs queryName (ftablename r)
          (reverse_resolver (Some d) (ftablename r) (fcolumnname r) (columnname r)))"

definition createReverseRelationsResolvers ::
  "(string \<Rightarrow> string) \<Rightarrow> string \<Rightarrow> 'w resolver \<Rightarrow> js_error + 'w resolver" where
  "createReverseRelationsResolvers toCamelCase tablename R =
     (case dbDriver R of
        None \<Rightarrow> Inl TypeError
      | Some d \<Rightarrow>
          (case obj_get (dbSchema d) tablename of
             None \<Rightarrow> Inl TypeError
           | Some tbl \<Rightarrow>
               Inr (R\<lparr>resolvers := reverse_fields d (toCamelCase tablename) (reverse tbl) (resolvers R)\<rparr>)))"

definition addDefaultFieldsResolvers ::
  "(string \<Rightarrow> string) \<Rightarrow> string \<Rightarrow> 'w resolver \<Rightarrow> 'w resolver" where
  "addDefaultFieldsResolvers toCamelCase tablename R =
     (let typeName = toCamelCase tablename;
          R1 = add ''Query'' (typeName @ ''GetPage'')
                 (\<lambda>parent args context. GetPage (dbDriver R) tablename parent args (Some context)) R;
          R2 = add ''Query'' (typeName @ ''GetFirst'')
                 (\<lambda>parent args context. GetFirstOf (dbDriver R) tablename parent args (Some context)) R1
      in add ''Mutation'' (typeName @ ''Put'')
           (\<lambda>parent args context. putItem (dbDriver R) tablename parent args (Some context)) R2)"

fun resolvers_for_tables ::
  "(string \<Rightarrow> string) \<Rightarrow> string list \<Rightarrow> 'w resolver \<Rightarrow> js_error + 'w resolver" where
  "resolvers_for_tables toCamelCase [] R = Inr R"
| "resolvers_for_tables toCamelCase (tablename # rest) R =
     (case createForeignFieldsResolvers toCamelCase tablename
             (addDefaultFieldsResolvers toCamelCase tablename R) of
        Inl e \<Rightarrow> Inl e
      | Inr R1 \<Rightarrow>
          (case createReverseRelationsResolvers toCamelCase tablename R1 of
             Inl e \<Rightarrow> Inl e
           | Inr R2 \<Rightarrow> resolvers_for_tables toCamelCase rest R2))"

text \<open>
  getResolvers returns \<^verbatim>\<open>this.resolvers\<close>; the model returns the instance, whose
  \<open>resolvers\<close> field is that map.
\<close>

definition getResolvers :: "(string \<Rightarrow> string) \<Rightarrow> bool \<Rightarrow> 'w resolver \<Rightarrow> js_error + 'w resolver" where
  "getResolvers toCamelCase withDatabase R =
     (case dbDriver R of
        None \<Rightarrow> Inr R
      | Some d \<Rightarrow>
          if withDatabase then resolvers_for_tables toCamelCase (getTablesFromSchema d) R
          else Inr R)"

section \<open>Enumeration order of own properties\<close>

text \<open>
  \<^verbatim>\<open>for (k in o)\<close> and \<^verbatim>\<open>Object.keys(o)\<close> list first the keys that are array
  indices (canonical decimal numerals below \<open>2^32 - 1\<close>) in ascending numeric order,
  then the other keys in the order of their creation.
\<close>

fun digit_value :: "char \<Rightarrow> string \<Rightarrow> nat option" where
  "digit_value c [] = None"
| "digit_value c (d # ds) = (if c = d then Some 0 else map_option Suc (digit_value c ds))"

fun decimal_value :: "nat \<Rightarrow> string \<Rightarrow> nat option" where
  "decimal_value acc [] = Some acc"
| "decimal_value acc (c # cs) =
     (case digit_value c ''0123456789'' of
        None \<Rightarrow> None
      | Some d \<Rightarrow> decimal_value (10 * acc + d) cs)"

definition is_array_index :: "string \<Rightarrow> bool" where
  "is_array_index k =
     (case decimal_value 0 k of
        None \<Rightarrow> False
      | Some n \<Rightarrow> k \<noteq> [] \<and> digits n = k \<and> n < 4294967295)"

definition index_of_key :: "string \<Rightarrow> nat" where
  "index_of_key k = (case decimal_value 0 k of None \<Rightarrow> 0 | Some n \<Rightarrow> n)"

definition own_entries :: "(string \<times> 'v) list \<Rightarrow> (string \<times> 'v) list" where
  "own_entries ps =
     sort_key (\<lambda>p. index_of_key (fst p)) (filter (\<lambda>p. is_array_index (fst p)) ps)
     @ filter (\<lambda>p. \<not> is_array_index (fst p)) ps"

definition own_keys :: "(string \<times> 'v) list \<Rightarrow> string list" where
  "own_keys ps = map fst (own_entries ps)"

section \<open>Compiler\<close>

text \<open>
  A field's \<^verbatim>\<open>type\<close> is a name or a one-element array of a name; \<^verbatim>\<open>params\<close> is
  missing on the \<^verbatim>\<open>items\<close> field of a Page type.
\<close>

datatype type_ref = Named string | ListOf string

record field_def =
  fd_name :: string
  fd_type :: type_ref
  fd_params :: "(string \<times> string) list option"

record schema =
  types :: "(string \<times> (string \<times> field_def) list) list"
  inputs :: "(string \<times> (string \<times> string) list) list"

record 'w compiler =
  c_dbSchema :: "(string \<times> table) list option"
  c_dbDriver :: "'w driver option"
  schema :: schema
  sdl :: string

definition new_Compiler :: "(string \<times> table) list option \<Rightarrow> 'w driver option \<Rightarrow> 'w compiler" where
  "new_Compiler dbs drv =
     \<lparr>c_dbSchema = dbs, c_dbDriver = drv, schema = \<lparr>types = [], inputs = []\<rparr>, sdl = []\<rparr>"


definition query_params :: "(string \<times> string) list" where
  "query_params =
     [(''filter'', ''String''), (''pagination'', ''String''), (''where'', ''Condition''),
      (''_debug'', ''Boolean''), (''_cache'', ''Boolean'')]"

text \<open>\<^verbatim>\<open>this.dbSchema[tablename][child]\<close>, with the TypeError of a missing table.\<close>

definition schema_column ::
  "(string \<times> table) list option \<Rightarrow> string \<Rightarrow> string \<Rightarrow> js_error + column option" where
  "schema_column dbs tablename child =
     (case dbs of
        None \<Rightarrow> Inl TypeError
      | Some tables \<Rightarrow>
          (case obj_get tables tablename of
             None \<Rightarrow> Inl TypeError
           | Some tbl \<Rightarrow> Inr (obj_get (columns tbl) child)))"

text \<open>
  The first loop of mapDbTableToGraphqlType, on the fields of the type: whatever
  is thrown inside \<^verbatim>\<open>try\<close> is swallowed and the column is left as it was.
\<close>

fun scalar_fields ::
  "'w driver \<Rightarrow> (string \<times> table) list option \<Rightarrow> string \<Rightarrow> string list \<Rightarrow>
   (string \<times> field_def) list \<Rightarrow> (string \<times> field_def) list"
where
  "scalar_fields d dbs tablename [] fs = fs"
| "scalar_fields d dbs tablename (child # rest) fs =
     scalar_fields d dbs tablename rest
       (case schema_column dbs tablename child of
          Inl err \<Rightarrow> fs
        | Inr col \<Rightarrow>
            (case mapDbColumnToGraphqlType d child col of
               Inl err \<Rightarrow> fs
             | Inr t \<Rightarrow>
                 obj_set fs child
                   \<lparr>fd_name = child, fd_type = Named t, fd_params = Some []\<rparr>))"

text \<open>The second loop: a column that the schema does not hold is a TypeError.\<close>

fun foreign_relation_fields ::
  "(string \<Rightarrow> string) \<Rightarrow> (string \<times> table) list option \<Rightarrow> string \<Rightarrow> string list \<Rightarrow>
   (string \<times> field_def) list \<Rightarrow> js_error + (string \<times> field_def) list"
where
  "foreign_relation_fields toCamelCase dbs tablename [] fs = Inr fs"
| "foreign_relation_fields toCamelCase dbs tablename (c # rest) fs =
     (case schema_column dbs tablename c of
        Inl err \<Rightarrow> Inl err
      | Inr None \<Rightarrow> Inl TypeError
      | Inr (Some col) \<Rightarrow>
          (case foreign col of
             None \<Rightarrow> foreign_relation_fields toCamelCase dbs tablename rest fs
           | Some fk \<Rightarrow>
               foreign_relation_fields toCamelCase dbs tablename rest
                 (obj_set fs (c @ ''_'' @ fk_tablename fk)
                    \<lparr>fd_name = c @ ''_'' @ fk_tablename fk,
                     fd_type = Named (toCamelCase (fk_tablename fk)),
                     fd_params = Some []\<rparr>)))"

fun reverse_relation_fields ::
  "(string \<Rightarrow> string) \<Rightarrow> reverse_relation list \<Rightarrow> (string \<times> field_def) list \<Rightarrow>
   (string \<times> field_def) list"
where
  "reverse_relation_fields toCamelCase [] fs = fs"
| "reverse_relation_fields toCamelCase (r # rest) fs =
     reverse_relation_fields toCamelCase rest
       (obj_set fs (ftablename r)
          \<lparr>fd_name = ftablename r,
           fd_type = Named (toCamelCase (ftablename r) @ ''Page''),
           fd_params = Some query_params\<rparr>)"

definition page_fields :: "string \<Rightarrow> (string \<times> field_def) list" where
  "page_fields field =
     [(''total'', \<lparr>fd_name = ''total'', fd_type = Named ''Int'', fd_params = Some []\<rparr>),
      (''items'', \<lparr>fd_name = ''items'', fd_type = ListOf field, fd_params = None\<rparr>)]"

text \<open>
  mapDbTableToGraphqlType.  All writes of the three loops go to the one object
  \<^verbatim>\<open>this.schema.type[field]\<close>, created empty when the key is new; the model runs the
  loops on its field list and stores the list under the key, whose position is the one
  it got when it was created.  When the pass raises, the result is the error alone: the
  half-written instance is not described.
\<close>

definition mapDbTableToGraphqlType ::
  "(string \<Rightarrow> string) \<Rightarrow> string \<Rightarrow> 'w compiler \<Rightarrow> js_error + 'w compiler" where
  "mapDbTableToGraphqlType toCamelCase tablename C =
     (let field = toCamelCase tablename;
          ts = types (schema C);
          fields0 = (case obj_get ts field of None \<Rightarrow> [] | Some fs \<Rightarrow> fs)
      in case c_dbDriver C of
           None \<Rightarrow> Inl TypeError
         | Some d \<Rightarrow>
             (let cols = getTableColumnsFromSchema d tablename;
                  fields1 = scalar_fields d (c_dbSchema C) tablename cols fields0
              in case foreign_relation_fields toCamelCase (c_dbSchema C) tablename cols fields1 of
                   Inl err \<Rightarrow> Inl err
                 | Inr fields2 \<Rightarrow>
                     (case c_dbSchema C of
                        None \<Rightarrow> Inl TypeError
                      | Some tables \<Rightarrow>
                          (case obj_get tables tablename of
                             None \<Rightarrow> Inl TypeError
                           | Some tbl \<Rightarrow>
                               (let fields3 = reverse_relation_fields toCamelCase (reverse tbl) fields2;
                                    ts1 = obj_set ts field fields3;
                                    ts2 = obj_set ts1 (field @ ''Page'') (page_fields field)
                                in Inr (C\<lparr>schema := (schema C)\<lparr>types := ts2\<rparr>\<rparr>))))))"

definition mapDbTableToGraphqlQuery :: "(string \<Rightarrow> string) \<Rightarrow> string \<Rightarrow> 'w compiler \<Rightarrow> 'w compiler" where
  "mapDbTableToGraphqlQuery toCamelCase tablename C =
     (let field = toCamelCase tablename
      in C\<lparr>schema := (schema C)\<lparr>types :=
           obj_set2 (types (schema C)) ''Query'' (field @ ''GetPage'')
             \<lparr>fd_name = field @ ''GetPage'', fd_type = Named (field @ ''Page''),
              fd_params = Some query_params\<rparr>\<rparr>\<rparr>)"

definition mapDbTableToGraphqlFirstOf :: "(string \<Rightarrow> string) \<Rightarrow> string \<Rightarrow> 'w compiler \<Rightarrow> 'w compiler" where
  "mapDbTableToGraphqlFirstOf toCamelCase tablename C =
     (let field = toCamelCase tablename
      in C\<lparr>schema := (schema C)\<lparr>types :=
           obj_set2 (types (schema C)) ''Query'' (field @ ''GetFirst'')
             \<lparr>fd_name = field @ ''GetFirst'', fd_type = Named field,
              fd_params = Some query_params\<rparr>\<rparr>\<rparr>)"

definition getInputName :: "(string \<Rightarrow> string) \<Rightarrow> string \<Rightarrow> string" where
  "getInputName toCamelCase tablename = toCamelCase tablename @ ''Input''"

text \<open>The loop of mapDbTableToGraphqlInput, on the fields of the input.\<close>

fun input_fields ::
  "'w driver \<Rightarrow> (string \<times> table) list option \<Rightarrow> string \<Rightarrow> string list \<Rightarrow>
   (string \<times> string) list \<Rightarrow> (string \<times> string) list"
where
  "input_fields d dbs tablename [] fs = fs"
| "input_fields d dbs tablename (col # rest) fs =
     input_fields d dbs tablename rest
       (case schema_column dbs tablename col of
          Inl err \<Rightarrow> fs
        | Inr cmeta \<Rightarrow>
            (case mapDbColumnToGraphqlType d col cmeta of
               Inl err \<Rightarrow> fs
             | Inr t \<Rightarrow> obj_set fs col t))"

definition mapDbTableToGraphqlInput ::
  "(string \<Rightarrow> string) \<Rightarrow> string \<Rightarrow> 'w compiler \<Rightarrow> js_error + 'w compiler" where
  "mapDbTableToGraphqlInput toCamelCase tablename C =
     (let name = getInputName toCamelCase tablename;
          ins = inputs (schema C);
          fields0 = (case obj_get ins name of None \<Rightarrow> [] | Some fs \<Rightarrow> fs)
      in case c_dbDriver C of
           None \<Rightarrow> Inl TypeError
         | Some d \<Rightarrow>
             Inr (C\<lparr>schema := (schema C)\<lparr>inputs :=
                    obj_set ins name
                      (input_fields d (c_dbSchema C) tablename
                         (getTableColumnsFromSchema d tablename) fields0)\<rparr>\<rparr>))"

definition mapDbTableToGraphqlMutation :: "(string \<Rightarrow> string) \<Rightarrow> string \<Rightarrow> 'w compiler \<Rightarrow> 'w compiler" where
  "mapDbTableToGraphqlMutation toCamelCase tablename C =
     (let field = toCamelCase tablename;
          name = getInputName toCamelCase tablename
      in C\<lparr>schema := (schema C)\<lparr>types :=
           obj_set2 (types (schema C)) ''Mutation'' (field @ ''PutItem'')
             \<lparr>fd_name = field @ ''PutItem'', fd_type = Named field,
              fd_params = Some [(''_debug'', ''Boolean''), (''input'', name @ ''!'')]\<rparr>\<rparr>\<rparr>)"


fun build_tables ::
  "(string \<Rightarrow> string) \<Rightarrow> string list \<Rightarrow> 'w compiler \<Rightarrow> js_error + 'w compiler" where
  "build_tables toCamelCase [] C = Inr C"
| "build_tables toCamelCase (tablename # rest) C =
     (case mapDbTableToGraphqlType toCamelCase tablename C of
        Inl err \<Rightarrow> Inl err
      | Inr C1 \<Rightarrow>
          (case mapDbTableToGraphqlInput toCamelCase tablename
                  (mapDbTableToGraphqlMutation toCamelCase tablename
                     (mapDbTableToGraphqlFirstOf toCamelCase tablename
                        (mapDbTableToGraphqlQuery toCamelCase tablename C1))) of
             Inl err \<Rightarrow> Inl err
           | Inr C2 \<Rightarrow> build_tables toCamelCase rest C2))"

text \<open>
  async_buildSchema: the full build, every pass awaited, over the tables in the
  enumeration order of \<^verbatim>\<open>dbSchema\<close>.  The method buildSchema starts the same
  passes without awaiting them; the order in which their continuations then run depends
  on the promise job queue and is not modelled.
\<close>

definition async_buildSchema :: "(string \<Rightarrow> string) \<Rightarrow> 'w compiler \<Rightarrow> js_error + 'w compiler" where
  "async_buildSchema toCamelCase C =
     (case c_dbSchema C of
        None \<Rightarrow> Inr C
      | Some tables \<Rightarrow> build_tables toCamelCase (own_keys tables) C)"

text \<open>addType and addInput: a field or an input field added by hand.\<close>

definition addType ::
  "string \<Rightarrow> string \<Rightarrow> type_ref \<Rightarrow> (string \<times> string) list option \<Rightarrow> 'w compiler \<Rightarrow> 'w compiler" where
  "addType type field returns params C =
     C\<lparr>schema := (schema C)\<lparr>types :=
         obj_set2 (types (schema C)) type field
           \<lparr>fd_name = field, fd_type = returns, fd_params = params\<rparr>\<rparr>\<rparr>"

definition addInput :: "string \<Rightarrow> string \<Rightarrow> string \<Rightarrow> 'w compiler \<Rightarrow> 'w compiler" where
  "addInput input field subType C =
     C\<lparr>schema := (schema C)\<lparr>inputs := obj_set2 (inputs (schema C)) input field subType\<rparr>\<rparr>"






section \<open>Names a table pass generates\<close>

text \<open>
  The keys of an object after assignments to the keys \<open>xs\<close>, one after the other, on
  an object whose keys were \<open>ks\<close>: a key that exists keeps its place, a new key goes to
  the end.
\<close>

definition add_key :: "string list \<Rightarrow> string \<Rightarrow> string list" where
  "add_key ks k = (if k \<in> set ks then ks else ks @ [k])"

definition creation_order :: "string list \<Rightarrow> string list \<Rightarrow> string list" where
  "creation_order ks xs = foldl add_key ks xs"

text \<open>
  The columns of a table whose type the driver maps, the names of its foreign-relation
  fields and the names of its reverse-relation fields, each in the order in which
  mapDbTableToGraphqlType meets them.
\<close>

definition mapped_columns :: "'w driver \<Rightarrow> table \<Rightarrow> string list \<Rightarrow> string list" where
  "mapped_columns d tbl cols =
     filter (\<lambda>c. case mapDbColumnToGraphqlType d c (obj_get (columns tbl) c) of
                   Inl err \<Rightarrow> False
                 | Inr t \<Rightarrow> True) cols"






section \<open>The example of the README\<close>

text \<open>
  Modelled from the spec: \<^verbatim>\<open>utils.toCamelCase\<close> is not under src/.  The specification
  names the type of table \<open>foo\<close> \<open>Foo\<close> and that of \<open>bar\<close> \<open>Bar\<close>; this stand-in, used
  only on such one-word lower-case names, turns the first letter into its capital.
\<close>

definition capital :: "char \<Rightarrow> char" where
  "capital c =
     (case digit_value c ''abcdefghijklmnopqrstuvwxyz'' of
        None \<Rightarrow> c
      | Some i \<Rightarrow> ''ABCDEFGHIJKLMNOPQRSTUVWXYZ'' ! i)"

fun toCamelCase_example :: "string \<Rightarrow> string" where
  "toCamelCase_example [] = []"
| "toCamelCase_example (c # cs) = capital c # cs"

text \<open>
  The tables \<open>foo(id, name)\<close> and \<open>bar(id, foo_id references foo.id)\<close>, and a driver
  whose world is the log of its calls.
\<close>

definition example_schema :: "(string \<times> table) list" where
  "example_schema =
     [(''foo'',
       \<lparr>columns =
          [(''id'', \<lparr>col_name = ''id'', nativeType = ''serial'', foreign = None\<rparr>),
           (''name'', \<lparr>col_name = ''name'', nativeType = ''boolean'', foreign = None\<rparr>)],
        reverse = [\<lparr>ftablename = ''bar'', fcolumnname = ''foo_id'', columnname = ''id''\<rparr>]\<rparr>),
      (''bar'',
       \<lparr>columns =
          [(''id'', \<lparr>col_name = ''id'', nativeType = ''serial'', foreign = None\<rparr>),
           (''foo_id'', \<lparr>col_name = ''foo_id'', nativeType = ''integer'',
              foreign = Some \<lparr>fk_tablename = ''foo'', fk_columnname = ''id''\<rparr>\<rparr>)],
        reverse = []\<rparr>)]"

definition example_type :: "string \<Rightarrow> column option \<Rightarrow> js_error + string" where
  "example_type child col =
     (case col of
        None \<Rightarrow> Inl (Error ''unknown column'')
      | Some c \<Rightarrow>
          if nativeType c = ''boolean'' then Inr ''Boolean''
          else if nativeType c = ''text'' then Inr ''String''
          else if nativeType c = ''serial'' \<or> nativeType c = ''integer'' then Inr ''Int''
          else Inl (Error ''unknown type''))"



type_synonym call_log = "(string \<times> string \<times> obj) list"

definition logged :: "string \<Rightarrow> jsval \<Rightarrow> string \<Rightarrow> obj \<Rightarrow> call_log action" where
  "logged operation result tablename args s =
     (Inr result, s\<lparr>world := world s @ [(operation, tablename, args)]\<rparr>)"

definition example_driver :: "(string \<times> table) list \<Rightarrow> call_log driver" where
  "example_driver dbs =
     \<lparr>db = JNull,
      dbSchema = dbs,
      getTablesFromSchema = map fst dbs,
      getTableColumnsFromSchema =
        (\<lambda>t. case obj_get dbs t of None \<Rightarrow> [] | Some tbl \<Rightarrow> map fst (columns tbl)),
      getPrimaryKeyFromSchema = (\<lambda>t. ''id''),
      mapDbColumnToGraphqlType = example_type,
      pageTotal = logged ''pageTotal'' (JNum 1),
      page = logged ''page'' (JArr [JObj [(''id'', JNum 1)]]),
      firstOf = logged ''firstOf'' (JObj [(''id'', JNum 1)]),
      putItem_driver = logged ''putItem'' (JArr [JNum 1])\<rparr>"


text \<open>A handler that counts its invocations in the world, and a hook that denies.\<close>

definition counting_handler :: "nat handler" where
  "counting_handler root args context s = (Inr (JStr ''handled''), s\<lparr>world := Suc (world s)\<rparr>)"

definition deny_hook :: "nat hook" where
  "deny_hook =
     \<lparr>validator = (\<lambda>namespace name root args context s. (Inr (JBool False), s)),
      rejected = (\<lambda>namespace name root args context s. (Inr (JStr ''denied''), s))\<rparr>"

definition counter_state :: "nat state" where
  "counter_state = \<lparr>objs = (\<lambda>a. [(''user'', JStr ''u'')]), next_addr = 1, world = 0\<rparr>"

section \<open>buildSchema: the passes started without await\<close>

text \<open>
  buildSchema calls the five passes of every table and awaits none of them.  Each pass
  is an async function: it runs up to its first \<^verbatim>\<open>await\<close> inside the call, and every
  later piece runs as a job of the promise job queue, first in, first out.  An
  \<^verbatim>\<open>await\<close> of a value that is no promise, or of a promise that is already settled,
  puts the rest of the function at the end of the queue at once; the function that
  awaits getInputName is put there when getInputName returns.  The driver's column list
  and \<^verbatim>\<open>utils.toCamelCase\<close> are plain values, as the un-awaited uses of both in the
  source require.

  A job names the piece of a pass that is waiting to run:
  \<^item> \<open>TypeColumns\<close>: mapDbTableToGraphqlType from the loop over the columns on, with
    the columns it was given;
  \<^item> \<open>TypeRelations\<close>: the same pass from the foreign relations on;
  \<^item> \<open>QueryField\<close>, \<open>FirstOfField\<close>: the bodies of mapDbTableToGraphqlQuery and
    mapDbTableToGraphqlFirstOf;
  \<^item> \<open>MutationType\<close>: mapDbTableToGraphqlMutation up to its call of getInputName;
    \<open>MutationInputName\<close>: that call of getInputName past its own await;
    \<open>MutationField\<close>: the rest of the pass;
  \<^item> \<open>InputInputName\<close>: the call of getInputName made by mapDbTableToGraphqlInput;
    \<open>InputType\<close>, \<open>InputColumns\<close>, \<open>InputDone\<close>: the pieces of that pass after
    each of its three awaits.
\<close>

datatype job =
    TypeColumns string "string list"
  | TypeRelations string "string list"
  | QueryField string
  | FirstOfField string
  | MutationType string
  | MutationInputName string
  | MutationField string
  | InputInputName string
  | InputType string
  | InputColumns string "string list"
  | InputDone string

text \<open>
  The loop over the foreign relations with the fields written before an error: the
  loop is outside \<^verbatim>\<open>try\<close>, so an error ends the pass and what was written stays.
\<close>

fun foreign_relation_writes ::
  "(string \<Rightarrow> string) \<Rightarrow> (string \<times> table) list option \<Rightarrow> string \<Rightarrow> string list \<Rightarrow>
   (string \<times> field_def) list \<Rightarrow> (string \<times> field_def) list \<times> js_error option"
where
  "foreign_relation_writes toCamelCase dbs tablename [] fs = (fs, None)"
| "foreign_relation_writes toCamelCase dbs tablename (c # rest) fs =
     (case schema_column dbs tablename c of
        Inl err \<Rightarrow> (fs, Some err)
      | Inr None \<Rightarrow> (fs, Some TypeError)
      | Inr (Some col) \<Rightarrow>
          (case foreign col of
             None \<Rightarrow> foreign_relation_writes toCamelCase dbs tablename rest fs
           | Some fk \<Rightarrow>
               foreign_relation_writes toCamelCase dbs tablename rest
                 (obj_set fs (c @ ''_'' @ fk_tablename fk)
                    \<lparr>fd_name = c @ ''_'' @ fk_tablename fk,
                     fd_type = Named (toCamelCase (fk_tablename fk)),
                     fd_params = Some []\<rparr>)))"

text \<open>
  \<^verbatim>\<open>this.dbSchema[tablename].__reverse\<close>, with the TypeError of a missing schema or
  table.
\<close>

definition schema_reverse ::
  "(string \<times> table) list option \<Rightarrow> string \<Rightarrow> js_error + reverse_relation list" where
  "schema_reverse dbs tablename =
     (case dbs of
        None \<Rightarrow> Inl TypeError
      | Some tables \<Rightarrow>
          (case obj_get tables tablename of
             None \<Rightarrow> Inl TypeError
           | Some tbl \<Rightarrow> Inr (reverse tbl)))"

definition set_types :: "(string \<times> (string \<times> field_def) list) list \<Rightarrow> 'w compiler \<Rightarrow> 'w compiler" where
  "set_types ts C = C\<lparr>schema := (schema C)\<lparr>types := ts\<rparr>\<rparr>"

definition set_inputs :: "(string \<times> (string \<times> string) list) list \<Rightarrow> 'w compiler \<Rightarrow> 'w compiler" where
  "set_inputs ins C = C\<lparr>schema := (schema C)\<lparr>inputs := ins\<rparr>\<rparr>"

text \<open>
  One job: the instance it leaves, the jobs it puts at the end of the queue, and the
  error with which its pass is rejected, if any.  Every write reads
  \<^verbatim>\<open>this.schema.type[field]\<close> (or \<^verbatim>\<open>this.schema.input[name]\<close>) again; where that
  object is missing the write raises a TypeError, which the loops inside \<^verbatim>\<open>try\<close>
  swallow.
\<close>

fun step ::
  "(string \<Rightarrow> string) \<Rightarrow> job \<Rightarrow> 'w compiler \<Rightarrow> 'w compiler \<times> job list \<times> js_error option"
where
  "step toCamelCase (TypeColumns tablename cols) C =
     (let field = toCamelCase tablename; ts = types (schema C)
      in ((case obj_get ts field of
             None \<Rightarrow> C
           | Some fs \<Rightarrow>
               (case c_dbDriver C of
                  None \<Rightarrow> C
                | Some d \<Rightarrow>
                    set_types (obj_set ts field (scalar_fields d (c_dbSchema C) tablename cols fs)) C)),
          [TypeRelations tablename cols], None))"
| "step toCamelCase (TypeRelations tablename cols) C =
     (let field = toCamelCase tablename; ts = types (schema C)
      in case obj_get ts field of
           None \<Rightarrow>
             (case foreign_relation_writes toCamelCase (c_dbSchema C) tablename cols [] of
                (fs2, Some err) \<Rightarrow> (C, [], Some TypeError)
              | (fs2, None) \<Rightarrow>
                  if fs2 \<noteq> [] then (C, [], Some TypeError)
                  else (case schema_reverse (c_dbSchema C) tablename of
                          Inl err \<Rightarrow> (C, [], Some err)
                        | Inr rs \<Rightarrow>
                            if rs \<noteq> [] then (C, [], Some TypeError)
                            else (set_types (obj_set ts (field @ ''Page'') (page_fields field)) C,
                                  [], None)))
         | Some fs \<Rightarrow>
             (case foreign_relation_writes toCamelCase (c_dbSchema C) tablename cols fs of
                (fs2, Some err) \<Rightarrow> (set_types (obj_set ts field fs2) C, [], Some err)
              | (fs2, None) \<Rightarrow>
                  (case schema_reverse (c_dbSchema C) tablename of
                     Inl err \<Rightarrow> (set_types (obj_set ts field fs2) C, [], Some err)
                   | Inr rs \<Rightarrow>
                       (set_types
                          (obj_set (obj_set ts field (reverse_relation_fields toCamelCase rs fs2))
                             (field @ ''Page'') (page_fields field)) C,
                        [], None))))"
| "step toCamelCase (QueryField tablename) C =
     (mapDbTableToGraphqlQuery toCamelCase tablename C, [], None)"
| "step toCamelCase (FirstOfField tablename) C =
     (mapDbTableToGraphqlFirstOf toCamelCase tablename C, [], None)"
| "step toCamelCase (MutationType tablename) C =
     (let ts = types (schema C)
      in (case obj_get ts ''Mutation'' of
            None \<Rightarrow> set_types (obj_set ts ''Mutation'' []) C
          | Some fs \<Rightarrow> C),
         [MutationInputName tablename], None)"
| "step toCamelCase (MutationInputName tablename) C = (C, [MutationField tablename], None)"
| "step toCamelCase (MutationField tablename) C =
     (let field = toCamelCase tablename;
          name = getInputName toCamelCase tablename;
          ts = types (schema C)
      in case obj_get ts ''Mutation'' of
           None \<Rightarrow> (C, [], Some TypeError)
         | Some fs \<Rightarrow>
             (set_types
                (obj_set ts ''Mutation''
                   (obj_set fs (field @ ''PutItem'')
                      \<lparr>fd_name = field @ ''PutItem'', fd_type = Named field,
                       fd_params = Some [(''_debug'', ''Boolean''), (''input'', name @ ''!'')]\<rparr>)) C,
              [], None))"
| "step toCamelCase (InputInputName tablename) C = (C, [InputType tablename], None)"
| "step toCamelCase (InputType tablename) C =
     (let name = getInputName toCamelCase tablename;
          ins = inputs (schema C);
          C1 = (case obj_get ins name of
                  None \<Rightarrow> set_inputs (obj_set ins name []) C
                | Some fs \<Rightarrow> C)
      in case c_dbDriver C of
           None \<Rightarrow> (C1, [], Some TypeError)
         | Some d \<Rightarrow> (C1, [InputColumns tablename (getTableColumnsFromSchema d tablename)], None))"
| "step toCamelCase (InputColumns tablename cols) C =
     (let name = getInputName toCamelCase tablename; ins = inputs (schema C)
      in ((case obj_get ins name of
             None \<Rightarrow> C
           | Some fs \<Rightarrow>
               (case c_dbDriver C of
                  None \<Rightarrow> C
                | Some d \<Rightarrow>
                    set_inputs (obj_set ins name (input_fields d (c_dbSchema C) tablename cols fs)) C)),
          [InputDone tablename], None))"
| "step toCamelCase (InputDone tablename) C = (C, [], None)"

text \<open>The number of jobs a job stands for: itself and the ones that follow from it.\<close>

fun weight :: "job \<Rightarrow> nat" where
  "weight (TypeColumns tablename cols) = 2"
| "weight (TypeRelations tablename cols) = 1"
| "weight (QueryField tablename) = 1"
| "weight (FirstOfField tablename) = 1"
| "weight (MutationType tablename) = 3"
| "weight (MutationInputName tablename) = 2"
| "weight (MutationField tablename) = 1"
| "weight (InputInputName tablename) = 4"
| "weight (InputType tablename) = 3"
| "weight (InputColumns tablename cols) = 2"
| "weight (InputDone tablename) = 1"

definition next_jobs :: "(string \<Rightarrow> string) \<Rightarrow> job \<Rightarrow> 'w compiler \<Rightarrow> job list" where
  "next_jobs toCamelCase j C = fst (snd (step toCamelCase j C))"

definition rejection :: "js_error option \<Rightarrow> js_error list" where
  "rejection e = (case e of None \<Rightarrow> [] | Some err \<Rightarrow> [err])"

text \<open>
  The job queue, run until it is empty: the instance, and the errors of the passes that
  were rejected, which nothing catches.
\<close>

function run_queue ::
  "(string \<Rightarrow> string) \<Rightarrow> job list \<Rightarrow> 'w compiler \<times> js_error list \<Rightarrow> 'w compiler \<times> js_error list"
where
  "run_queue toCamelCase [] st = st"
| "run_queue toCamelCase (j # q) st =
     run_queue toCamelCase (q @ next_jobs toCamelCase j (fst st))
       (fst (step toCamelCase j (fst st)),
        snd st @ rejection (snd (snd (step toCamelCase j (fst st)))))"
  by pat_completeness auto

lemma next_jobs_weight: "sum_list (map weight (next_jobs toCamelCase j C)) < weight j"
  by (cases j)
    (auto simp add: next_jobs_def Let_def split: option.splits sum.splits prod.splits if_splits)

termination run_queue
  by (relation "measure (\<lambda>(toCamelCase, q, st). sum_list (map weight q))")
    (auto simp add: next_jobs_weight)

text \<open>
  The calls that the body of the loop of buildSchema makes for one table, each up to its
  first \<^verbatim>\<open>await\<close>: mapDbTableToGraphqlType creates the type and asks the driver for
  the columns (a TypeError that rejects the pass when there is no driver); the other four
  passes stop at once, mapDbTableToGraphqlInput inside its call of getInputName.
\<close>

definition start_table ::
  "(string \<Rightarrow> string) \<Rightarrow> string \<Rightarrow> 'w compiler \<times> job list \<times> js_error list \<Rightarrow>
   'w compiler \<times> job list \<times> js_error list" where
  "start_table toCamelCase tablename st =
     (let C = fst st;
          field = toCamelCase tablename;
          ts = types (schema C);
          C1 = (case obj_get ts field of
                  None \<Rightarrow> set_types (obj_set ts field []) C
                | Some fs \<Rightarrow> C)
      in (C1,
          fst (snd st)
          @ (case c_dbDriver C of
               None \<Rightarrow> []
             | Some d \<Rightarrow> [TypeColumns tablename (getTableColumnsFromSchema d tablename)])
          @ [QueryField tablename, FirstOfField tablename, MutationType tablename,
             InputInputName tablename],
          snd (snd st) @ (case c_dbDriver C of None \<Rightarrow> [TypeError] | Some d \<Rightarrow> [])))"

text \<open>
  buildSchema at the moment it returns: the instance, the jobs that wait in the queue
  and the passes already rejected.
\<close>

definition buildSchema ::
  "(string \<Rightarrow> string) \<Rightarrow> 'w compiler \<Rightarrow> 'w compiler \<times> job list \<times> js_error list" where
  "buildSchema toCamelCase C =
     (case c_dbSchema C of
        None \<Rightarrow> (C, [], [])
      | Some tables \<Rightarrow> foldl (\<lambda>st t. start_table toCamelCase t st) (C, [], []) (own_keys tables))"

text \<open>
  The build is complete when the queue that buildSchema left is empty: the instance then,
  and the errors of the rejected passes.
\<close>

definition buildSchema_settled ::
  "(string \<Rightarrow> string) \<Rightarrow> 'w compiler \<Rightarrow> 'w compiler \<times> js_error list" where
  "buildSchema_settled toCamelCase C =
     (let st = buildSchema toCamelCase C
      in run_queue toCamelCase (fst (snd st)) (fst st, snd (snd st)))"

subsection \<open>The queue, generation by generation\<close>

text \<open>
  The state after one job, the state after a list of jobs run in order, and the jobs
  that those jobs add to the queue.
\<close>

definition advance ::
  "(string \<Rightarrow> string) \<Rightarrow> job \<Rightarrow> 'w compiler \<times> js_error list \<Rightarrow> 'w compiler \<times> js_error list" where
  "advance toCamelCase j st =
     (fst (step toCamelCase j (fst st)),
      snd st @ rejection (snd (snd (step toCamelCase j (fst st)))))"

fun run_jobs ::
  "(string \<Rightarrow> string) \<Rightarrow> job list \<Rightarrow> 'w compiler \<times> js_error list \<Rightarrow> 'w compiler \<times> js_error list"
where
  "run_jobs toCamelCase [] st = st"
| "run_jobs toCamelCase (j # js) st = run_jobs toCamelCase js (advance toCamelCase j st)"

fun successors ::
  "(string \<Rightarrow> string) \<Rightarrow> job list \<Rightarrow> 'w compiler \<times> js_error list \<Rightarrow> job list" where
  "successors toCamelCase [] st = []"
| "successors toCamelCase (j # js) st =
     next_jobs toCamelCase j (fst st) @ successors toCamelCase js (advance toCamelCase j st)"

text \<open>
  The jobs of one table in the queue that buildSchema leaves, and the jobs that follow
  from them, one generation after the other.
\<close>

definition first_jobs :: "'w driver \<Rightarrow> string \<Rightarrow> job list" where
  "first_jobs d t =
     [TypeColumns t (getTableColumnsFromSchema d t), QueryField t, FirstOfField t,
      MutationType t, InputInputName t]"

definition second_jobs :: "'w driver \<Rightarrow> string \<Rightarrow> job list" where
  "second_jobs d t =
     [TypeRelations t (getTableColumnsFromSchema d t), MutationInputName t, InputType t]"

definition third_jobs :: "'w driver \<Rightarrow> string \<Rightarrow> job list" where
  "third_jobs d t = [MutationField t, InputColumns t (getTableColumnsFromSchema d t)]"

definition fourth_jobs :: "string \<Rightarrow> job list" where
  "fourth_jobs t = [InputDone t]"

text \<open>The keys of \<^verbatim>\<open>this.schema.type\<close> that a job may write.\<close>

fun touched :: "(string \<Rightarrow> string) \<Rightarrow> job \<Rightarrow> string list" where
  "touched toCamelCase (TypeColumns t cols) = [toCamelCase t]"
| "touched toCamelCase (TypeRelations t cols) = [toCamelCase t, toCamelCase t @ ''Page'']"
| "touched toCamelCase (QueryField t) = [''Query'']"
| "touched toCamelCase (FirstOfField t) = [''Query'']"
| "touched toCamelCase (MutationType t) = [''Mutation'']"
| "touched toCamelCase (MutationField t) = [''Mutation'']"
| "touched toCamelCase j = []"

text \<open>The keys of \<^verbatim>\<open>this.schema.input\<close> that a job may write.\<close>

fun touched_inputs :: "(string \<Rightarrow> string) \<Rightarrow> job \<Rightarrow> string list" where
  "touched_inputs toCamelCase (InputType t) = [toCamelCase t @ ''Input'']"
| "touched_inputs toCamelCase (InputColumns t cols) = [toCamelCase t @ ''Input'']"
| "touched_inputs toCamelCase j = []"

section \<open>Facts about the pattern and the parsers\<close>

lemma occurs_at_0: "occurs_at a s 0 = prefix a s"
  by (simp add: occurs_at_def)

lemma occurs_at_Suc: "occurs_at a (c # cs) (Suc i) = occurs_at a cs i"
  by (simp add: occurs_at_def)

lemma occurs_at_Nil: "occurs_at a [] i = (i = 0 \<and> a = [])"
  by (auto simp add: occurs_at_def)

lemma find_Some_mem: "find P xs = Some x \<Longrightarrow> P x \<and> x \<in> set xs"
  by (induction xs) (auto split: if_splits)

lemma regex_exec_None:
  "regex_exec alts s = None \<longleftrightarrow> (\<forall>j. \<forall>a \<in> set alts. \<not> occurs_at a s j)"
proof (induction s)
  case Nil
  have "(find (\<lambda>a. prefix a []) alts = None) = ([] \<notin> set alts)"
    by (auto simp add: find_None_iff)
  then show ?case
    by (auto simp add: occurs_at_Nil split: option.splits)
next
  case (Cons c cs)
  have "(\<forall>j. \<forall>a \<in> set alts. \<not> occurs_at a (c # cs) j) \<longleftrightarrow>
        (\<forall>a \<in> set alts. \<not> prefix a (c # cs)) \<and> (\<forall>j. \<forall>a \<in> set alts. \<not> occurs_at a cs j)"
    (is "?L \<longleftrightarrow> ?R")
  proof
    assume l: ?L
    have "\<forall>a \<in> set alts. \<not> prefix a (c # cs)"
      using l occurs_at_0 by blast
    moreover have "\<forall>j. \<forall>a \<in> set alts. \<not> occurs_at a cs j"
      using l occurs_at_Suc by blast
    ultimately show ?R by simp
  next
    assume r: ?R
    show ?L
    proof (intro allI ballI)
      fix j a assume "a \<in> set alts"
      then show "\<not> occurs_at a (c # cs) j"
        using r by (cases j) (simp_all add: occurs_at_0 occurs_at_Suc)
    qed
  qed
  moreover have "(find (\<lambda>a. prefix a (c # cs)) alts = None) = (\<forall>a \<in> set alts. \<not> prefix a (c # cs))"
    by (auto simp add: find_None_iff)
  ultimately show ?case
    using Cons.IH by (cases "find (\<lambda>a. prefix a (c # cs)) alts") (auto dest: find_Some_mem)
qed

lemma regex_exec_Some:
  "regex_exec alts s = Some (i, a) \<Longrightarrow>
     \<exists>k<length alts. a = alts ! k \<and> occurs_at a s i \<and>
       (\<forall>k'<k. \<not> occurs_at (alts ! k') s i) \<and>
       (\<forall>j<i. \<forall>b \<in> set alts. \<not> occurs_at b s j)"
proof (induction s arbitrary: i)
  case Nil
  then show ?case
    by (auto simp add: find_Some_iff occurs_at_0 split: option.splits)
next
  case (Cons c cs)
  show ?case
  proof (cases "find (\<lambda>a. prefix a (c # cs)) alts")
    case (Some b)
    with Cons.prems have "i = 0" "b = a" by simp_all
    with Some show ?thesis
      by (auto simp add: find_Some_iff occurs_at_0)
  next
    case None
    with Cons.prems obtain i' where i: "i = Suc i'" and r: "regex_exec alts cs = Some (i', a)"
      by auto
    from Cons.IH [OF r] obtain k where k: "k < length alts" "a = alts ! k" "occurs_at a cs i'"
      "\<forall>k'<k. \<not> occurs_at (alts ! k') cs i'" "\<forall>j<i'. \<forall>b \<in> set alts. \<not> occurs_at b cs j"
      by blast
    have "\<forall>j<i. \<forall>b \<in> set alts. \<not> occurs_at b (c # cs) j"
    proof (intro allI impI ballI)
      fix j b assume "j < i" "b \<in> set alts"
      then show "\<not> occurs_at b (c # cs) j"
        using None k(5) i by (cases j) (auto simp add: find_None_iff occurs_at_0 occurs_at_Suc)
    qed
    with k i show ?thesis
      by (auto simp add: occurs_at_Suc)
  qed
qed

lemma split_from_none:
  "sep \<noteq> [] \<Longrightarrow> (\<forall>j. \<not> occurs_at sep s j) \<Longrightarrow> split_from sep acc s = [rev acc @ s]"
proof (induction s arbitrary: acc)
  case Nil
  then show ?case by simp
next
  case (Cons c cs)
  from Cons.prems(2) have "\<not> prefix sep (c # cs)"
    using occurs_at_0 by blast
  moreover from Cons.prems(2) have "\<forall>j. \<not> occurs_at sep cs j"
    using occurs_at_Suc by blast
  ultimately show ?case
    using Cons.IH [OF Cons.prems(1), of "c # acc"] by simp
qed

lemma split_from_first:
  "sep \<noteq> [] \<Longrightarrow> occurs_at sep s i \<Longrightarrow> (\<forall>j<i. \<not> occurs_at sep s j) \<Longrightarrow>
     split_from sep acc s = (rev acc @ take i s) # split_from sep [] (drop (i + length sep) s)"
proof (induction s arbitrary: i acc)
  case Nil
  then show ?case by (simp add: occurs_at_Nil)
next
  case (Cons c cs)
  show ?case
  proof (cases i)
    case 0
    with Cons.prems have p: "prefix sep (c # cs)" by (simp add: occurs_at_0)
    from Cons.prems(1) have "drop (length sep) (c # cs) = drop (length sep - 1) cs"
      by (cases sep) simp_all
    with p 0 Cons.prems(1) show ?thesis by simp
  next
    case (Suc i')
    with Cons.prems have np: "\<not> prefix sep (c # cs)"
      using occurs_at_0 by blast
    from Suc Cons.prems have o: "occurs_at sep cs i'" by (simp add: occurs_at_Suc)
    from Suc Cons.prems(3) have n: "\<forall>j<i'. \<not> occurs_at sep cs j"
      using occurs_at_Suc by (metis Suc_less_eq)
    from Cons.IH [OF Cons.prems(1) o n, of "c # acc"] np Suc show ?thesis by simp
  qed
qed

lemma split_once:
  assumes "sep \<noteq> []" "occurs_at sep s i" "\<forall>j<i. \<not> occurs_at sep s j"
    and "\<forall>j. \<not> occurs_at sep (drop (i + length sep) s) j"
  shows "split sep s = [take i s, drop (i + length sep) s]"
  using assms split_from_first [of sep s i "[]"] split_from_none [of sep "drop (i + length sep) s" "[]"]
  by (simp add: split_def)

lemma split_not_Nil: "split_from sep acc s \<noteq> []"
  by (induction sep acc s rule: split_from.induct) auto

lemma trim_operator: "m \<in> set operators \<Longrightarrow> trim m = m"
  by (auto simp add: operators_def trim_def isWhiteSpace_def)

lemma operator_not_Nil: "m \<in> set operators \<Longrightarrow> m \<noteq> []"
  by (auto simp add: operators_def)

lemma regex_exec_operator:
  assumes "regex_exec operators f1 = Some (i, m)"
  shows "m \<in> set operators" "occurs_at m f1 i" "\<forall>j<i. \<not> occurs_at m f1 j"
proof -
  from regex_exec_Some [OF assms] obtain k where k: "k < length operators" "m = operators ! k"
    "occurs_at m f1 i" "\<forall>j<i. \<forall>b \<in> set operators. \<not> occurs_at b f1 j"
    by blast
  from k(1,2) show m: "m \<in> set operators" by simp
  from k(3) show "occurs_at m f1 i" .
  from k(4) m show "\<forall>j<i. \<not> occurs_at m f1 j" by blast
qed

lemma clause_condition_triple:
  assumes "regex_exec operators f1 = Some (i, m)"
    and "\<forall>j. \<not> occurs_at m (drop (i + length m) f1) j"
  shows "clause_condition f1 = [m, trim (take i f1), trim (drop (i + length m) f1)]"
proof -
  note r = regex_exec_operator [OF assms(1)]
  have "split m f1 = [take i f1, drop (i + length m) f1]"
    using split_once [OF operator_not_Nil [OF r(1)] r(2) r(3) assms(2)] .
  with assms(1) trim_operator [OF r(1)] show ?thesis
    by (simp add: clause_condition_def)
qed

lemma filter_clauses_present:
  "filter_clauses t cs [(t, arr)] =
     (case find (\<lambda>c. regex_exec operators c = None) cs of
        Some c \<Rightarrow> Inl (Error (''Filter operation not suported in: '' @ c))
      | None \<Rightarrow> Inr [(t, arr @ map clause_condition cs)])"
proof (induction cs arbitrary: arr)
  case Nil
  show ?case by simp
next
  case (Cons c cs)
  show ?case
  proof (cases "regex_exec operators c")
    case None
    then show ?thesis by simp
  next
    case (Some p)
    obtain i m where p: "p = (i, m)" by (cases p)
    with Some Cons.IH [of "arr @ [clause_condition c]"] show ?thesis
      by (simp add: clause_condition_def Let_def split: option.splits)
  qed
qed

lemma filter_clauses_absent:
  "obj_get fobj t = None \<Longrightarrow>
   filter_clauses t (c # cs) fobj =
     (case regex_exec operators c of
        None \<Rightarrow> Inl (Error (''Filter operation not suported in: '' @ c))
      | Some p \<Rightarrow> Inl TypeError)"
  by (simp add: Let_def split: option.splits)

lemma pagination_params_present:
  "pagination_params t cs [(t, arr)] = Inr [(t, arr @ map (\<lambda>f1. map trim (split ''='' f1)) cs)]"
  by (induction cs arbitrary: arr) (simp_all add: Let_def)

lemma split_Cons: "sep \<noteq> [] \<Longrightarrow> \<exists>c cs. split sep s = c # cs"
  using split_not_Nil [of sep "[]" s] by (cases "split_from sep [] s") (simp_all add: split_def)

lemma occurs_at_single_mem: "occurs_at [c] s j \<Longrightarrow> c \<in> set s"
proof -
  assume "occurs_at [c] s j"
  then obtain r where "drop j s = c # r"
    by (auto simp add: occurs_at_def prefix_def)
  then have "c \<in> set (drop j s)" by simp
  then show ?thesis by (rule in_set_dropD)
qed

lemma split_no_separator: "c \<notin> set s \<Longrightarrow> split [c] s = [s]"
  using split_from_none [of "[c]" s "[]"] occurs_at_single_mem [of c s]
  by (auto simp add: split_def)

lemma no_occurrence_iff: "(\<forall>j. \<not> occurs_at op s j) \<longleftrightarrow> regex_exec [op] s = None"
  by (simp add: regex_exec_None)

lemma parseFilterExpression_trimmed:
  assumes "trim tablename = tablename"
  shows "parseFilterExpression filterExpr tablename =
     (case find (\<lambda>c. regex_exec operators c = None) (split '';'' filterExpr) of
        Some c \<Rightarrow> Inl (Error (''Filter operation not suported in: '' @ c))
      | None \<Rightarrow> Inr [(tablename, map clause_condition (split '';'' filterExpr))])"
  using assms filter_clauses_present [of tablename "split '';'' filterExpr" "[]"]
  by (simp add: parseFilterExpression_def split: option.splits)

lemma parsePaginationExpression_trimmed:
  assumes "trim tablename = tablename"
  shows "parsePaginationExpression expression tablename =
     Inr [(tablename, map (\<lambda>f1. map trim (split ''='' f1)) (split '';'' expression))]"
  using assms pagination_params_present [of tablename "split '';'' expression" "[]"]
  by (simp add: parsePaginationExpression_def)

section \<open>Claims about the expression parser\<close>

text \<open>
  C2.  In a clause that contains an operator somewhere, the pattern of
  parseFilterExpression matches at the leftmost index where any of the eight operators
  stands, and takes there the operator that comes first in the written order
  \<open><=>, >=, <=, =, >, <, ~, #\<close>.  For a clause without \<open>;\<close> and a trimmed table
  name other than \<open>__proto__\<close>, that operator is the head of the one condition the
  parser returns.
\<close>

theorem parseFilterExpression_operator_choice:
  assumes "op \<in> set operators" and "occurs_at op f1 j"
  shows "\<exists>i k. k < length operators
            \<and> regex_exec operators f1 = Some (i, operators ! k)
            \<and> occurs_at (operators ! k) f1 i
            \<and> (\<forall>j'<i. \<forall>b \<in> set operators. \<not> occurs_at b f1 j')
            \<and> (\<forall>k'<k. \<not> occurs_at (operators ! k') f1 i)
            \<and> (CHR '';'' \<notin> set f1 \<and> trim tablename = tablename \<and> tablename \<noteq> ''__proto__'' \<longrightarrow>
                 (\<exists>tokens. parseFilterExpression f1 tablename =
                    Inr [(tablename, [operators ! k # tokens])]))"
proof -
  from assms have "regex_exec operators f1 \<noteq> None"
    by (auto simp add: regex_exec_None)
  then obtain i m where r: "regex_exec operators f1 = Some (i, m)"
    by (cases "regex_exec operators f1") auto
  from regex_exec_Some [OF r] obtain k where k: "k < length operators" "m = operators ! k"
    "occurs_at m f1 i" "\<forall>k'<k. \<not> occurs_at (operators ! k') f1 i"
    "\<forall>j'<i. \<forall>b \<in> set operators. \<not> occurs_at b f1 j'"
    by blast
  have m: "trim m = m"
    using k(1,2) trim_operator by simp
  have "parseFilterExpression f1 tablename = Inr [(tablename, [m # map trim (split m f1)])]"
    if "CHR '';'' \<notin> set f1" and "trim tablename = tablename"
    using that r m split_no_separator [of "CHR '';''" f1]
    by (simp add: parseFilterExpression_trimmed clause_condition_def)
  with r k show ?thesis by blast
qed

theorem parseFilterExpression_operator_choice_witness:
  "''='' \<in> set operators \<and> occurs_at ''='' ''a>=b'' 2
   \<and> regex_exec operators ''a>=b'' = Some (1, ''>='')
   \<and> parseFilterExpression ''a>=b'' ''t'' = Inr [(''t'', [[''>='', ''a'', ''b'']])]"
proof -
  have h1: "''='' \<in> set operators" by (simp add: operators_def)
  have h2: "occurs_at ''='' ''a>=b'' 2" by (simp add: occurs_at_def)
  from parseFilterExpression_operator_choice [OF h1 h2, of "''t''"]
  have "\<exists>i k. regex_exec operators ''a>=b'' = Some (i, operators ! k)" by blast
  moreover have "regex_exec operators ''a>=b'' = Some (1, ''>='')"
    by (simp add: operators_def)
  moreover have "parseFilterExpression ''a>=b'' ''t'' = Inr [(''t'', [[''>='', ''a'', ''b'']])]"
    by (simp add: parseFilterExpression_def split_def trim_def isWhiteSpace_def operators_def)
  ultimately show ?thesis using h1 h2 by simp
qed

text \<open>
  C3, as stated, fails: \<^verbatim>\<open>f1.split(op)\<close> cuts the clause at every occurrence of the
  chosen operator, so the clause \<open>a=b=c\<close> gives four tokens and not the triple of
  operator, field and value.
\<close>

theorem parseFilterExpression_repeated_operator:
  "parseFilterExpression ''a=b=c'' ''t'' = Inr [(''t'', [[''='', ''a'', ''b'', ''c'']])]
   \<and> parseFilterExpression ''a=b=c'' ''t'' \<noteq> Inr [(''t'', [spec_triple ''a=b=c''])]"
  by (simp add: parseFilterExpression_def split_def trim_def isWhiteSpace_def operators_def
      spec_triple_def)

text \<open>
  C3, amended.  For a table name that is its own trimmed form (and is not the name
  \<open>__proto__\<close>), and an expression in which the operator chosen in each clause does
  not occur again to the right of the match, the parser returns one key, the table name,
  bound to one trimmed triple of operator, field and value per clause, in clause order.
\<close>

theorem parseFilterExpression_triples:
  assumes "trim tablename = tablename" and "tablename \<noteq> ''__proto__''"
    and "\<forall>f1 \<in> set (split '';'' filterExpr). \<exists>i op.
           regex_exec operators f1 = Some (i, op)
           \<and> (\<forall>j. \<not> occurs_at op (drop (i + length op) f1) j)"
  shows "parseFilterExpression filterExpr tablename =
           Inr [(tablename, map spec_triple (split '';'' filterExpr))]"
proof -
  have c: "clause_condition f1 = spec_triple f1" if "f1 \<in> set (split '';'' filterExpr)" for f1
  proof -
    from assms(3) that obtain i op where r: "regex_exec operators f1 = Some (i, op)"
      and n: "\<forall>j. \<not> occurs_at op (drop (i + length op) f1) j"
      by blast
    from clause_condition_triple [OF r n] r show ?thesis
      by (simp add: spec_triple_def)
  qed
  have "find (\<lambda>c. regex_exec operators c = None) (split '';'' filterExpr) = None"
    using assms(3) by (fastforce simp add: find_None_iff)
  moreover have "map clause_condition (split '';'' filterExpr) = map spec_triple (split '';'' filterExpr)"
    using c by simp
  ultimately show ?thesis
    using assms(1) by (simp add: parseFilterExpression_trimmed)
qed

theorem parseFilterExpression_triples_witness:
  "trim ''t'' = ''t'' \<and> split '';'' ''a=1;b#2,3'' = [''a=1'', ''b#2,3'']
   \<and> parseFilterExpression ''a=1;b#2,3'' ''t'' =
       Inr [(''t'', [[''='', ''a'', ''1''], [''#'', ''b'', ''2,3'']])]"
proof -
  have h1: "trim ''t'' = ''t''" by (simp add: trim_def isWhiteSpace_def)
  have h2: "''t'' \<noteq> ''__proto__''" by simp
  have s: "split '';'' ''a=1;b#2,3'' = [''a=1'', ''b#2,3'']" by (simp add: split_def)
  have r1: "regex_exec operators ''a=1'' = Some (1, ''='')" by (simp add: operators_def)
  have r2: "regex_exec operators ''b#2,3'' = Some (1, ''#'')" by (simp add: operators_def)
  have n1: "\<forall>j. \<not> occurs_at ''='' (drop (1 + length ''='') ''a=1'') j"
    by (simp add: no_occurrence_iff)
  have n2: "\<forall>j. \<not> occurs_at ''#'' (drop (1 + length ''#'') ''b#2,3'') j"
    by (simp add: no_occurrence_iff)
  have h3: "\<forall>f1 \<in> set (split '';'' ''a=1;b#2,3''). \<exists>i op.
           regex_exec operators f1 = Some (i, op)
           \<and> (\<forall>j. \<not> occurs_at op (drop (i + length op) f1) j)"
    using r1 r2 n1 n2 by (simp add: s)
  from parseFilterExpression_triples [OF h1 h2 h3] r1 r2 s h1 show ?thesis
    by (simp add: spec_triple_def trim_def isWhiteSpace_def)
qed

text \<open>
  C9, as stated, fails for parseFilterExpression: with an untrimmed table name and a
  first clause without operator, the error raised is the parser's own
  \<^verbatim>\<open>Error\<close>, thrown before the push, not a TypeError.
\<close>

theorem parseFilterExpression_untrimmed_parse_error:
  "trim '' t'' \<noteq> '' t''
   \<and> parseFilterExpression ''abc'' '' t'' = Inl (Error ''Filter operation not suported in: abc'')
   \<and> parseFilterExpression ''abc'' '' t'' \<noteq> Inl TypeError"
  by (simp add: parseFilterExpression_def split_def trim_def isWhiteSpace_def operators_def)

text \<open>
  C9, amended.  For a table name that differs from its trimmed form, neither parser
  returns a result, whatever the expression: parsePaginationExpression raises a
  TypeError at its first push; parseFilterExpression raises a TypeError when the first
  clause contains an operator, and its own \<^verbatim>\<open>Error\<close> for that clause otherwise.
\<close>

theorem parsers_untrimmed_table_fail:
  assumes "trim tablename \<noteq> tablename"
  shows "parsePaginationExpression expression tablename = Inl TypeError
       \<and> (\<exists>f1 rest. split '';'' filterExpr = f1 # rest
            \<and> parseFilterExpression filterExpr tablename =
                (case regex_exec operators f1 of
                   None \<Rightarrow> Inl (Error (''Filter operation not suported in: '' @ f1))
                 | Some p \<Rightarrow> Inl TypeError))"
proof -
  have g: "obj_get (obj_set [] (trim tablename) (arr :: string list list)) tablename = None" for arr
    using assms by simp
  obtain p ps where p: "split '';'' expression = p # ps"
    using split_Cons [of "'';''" expression] by auto
  have "parsePaginationExpression expression tablename = Inl TypeError"
    using g [of "[]"] assms by (simp add: parsePaginationExpression_def p Let_def)
  moreover obtain f1 rest where f: "split '';'' filterExpr = f1 # rest"
    using split_Cons [of "'';''" filterExpr] by auto
  moreover have "parseFilterExpression filterExpr tablename =
      (case regex_exec operators f1 of
         None \<Rightarrow> Inl (Error (''Filter operation not suported in: '' @ f1))
       | Some p \<Rightarrow> Inl TypeError)"
    unfolding parseFilterExpression_def f
    by (rule filter_clauses_absent) (use assms in simp)
  ultimately show ?thesis by blast
qed

theorem parsers_untrimmed_table_fail_witness:
  "trim ''t '' \<noteq> ''t ''
   \<and> parsePaginationExpression ''limit=2'' ''t '' = Inl TypeError
   \<and> parseFilterExpression ''a=1;b'' ''t '' = Inl TypeError"
proof -
  have h: "trim ''t '' \<noteq> ''t ''" by (simp add: trim_def isWhiteSpace_def)
  have s: "split '';'' ''a=1;b'' = [''a=1'', ''b'']" by (simp add: split_def)
  have r: "regex_exec operators ''a=1'' = Some (1, ''='')" by (simp add: operators_def)
  from parsers_untrimmed_table_fail [OF h, of "''limit=2''" "''a=1;b''"] h s r
  show ?thesis by simp
qed

section \<open>Facts about objects and the registry\<close>

lemma obj_get_obj_set: "obj_get (obj_set ps k v) k' = (if k' = k then Some v else obj_get ps k')"
  by (induction ps) auto

lemma obj_set_other_entries:
  "filter (\<lambda>p. fst p \<noteq> k) (obj_set ps k v) = filter (\<lambda>p. fst p \<noteq> k) ps"
  by (induction ps) auto

lemma obj_get2_obj_set2:
  "obj_get2 (obj_set2 ob ns name v) ns' name' =
     (if ns' = ns \<and> name' = name then Some v else obj_get2 ob ns' name')"
  by (cases "obj_get ob ns") (auto simp add: obj_get2_def obj_set2_def obj_get_obj_set)

lemma add_registers:
  "obj_get2 (resolvers (add namespace name cb R)) namespace name =
     Some (wrapped (dbDriver R) namespace name cb)"
  by (simp add: add_def obj_get2_obj_set2)

lemma context_with_ioc_Some:
  "context_with_ioc drv (Some a) s =
     (a, set_field a ''ioc''
           (JObj [(''resolver'', JThis), (''db'', case drv of None \<Rightarrow> JNull | Some d \<Rightarrow> db d)]) s)"
  by (simp add: context_with_ioc_def)




lemma find_not_None: "find P xs \<noteq> None \<longleftrightarrow> (\<exists>x \<in> set xs. P x)"
  by (simp add: find_None_iff Bex_def)

lemma parseFilterExpression_throws_iff:
  assumes "trim tablename = tablename"
  shows "(\<exists>e. parseFilterExpression filterExpr tablename = Inl e) \<longleftrightarrow>
         (\<exists>f1 \<in> set (split '';'' filterExpr). \<forall>j. \<forall>op \<in> set operators. \<not> occurs_at op f1 j)"
proof -
  let ?cs = "split '';'' filterExpr"
  have "(\<exists>e. parseFilterExpression filterExpr tablename = Inl e) \<longleftrightarrow>
        find (\<lambda>c. regex_exec operators c = None) ?cs \<noteq> None"
    using assms by (simp add: parseFilterExpression_trimmed split: option.splits)
  also have "\<dots> \<longleftrightarrow> (\<exists>f1 \<in> set ?cs. regex_exec operators f1 = None)"
    by (rule find_not_None)
  also have "\<dots> \<longleftrightarrow> (\<exists>f1 \<in> set ?cs. \<forall>j. \<forall>op \<in> set operators. \<not> occurs_at op f1 j)"
    by (simp add: regex_exec_None)
  finally show ?thesis .
qed

lemma parseArgsCommon_surfaces_error:
  assumes "obj_get args ''filter'' = Some (JStr filterExpr)" and "filterExpr \<noteq> []"
    and "parseFilterExpression filterExpr tablename = Inl e"
  shows "parseArgsCommon tablename args = Inl e"
  using assms by (simp add: parseArgsCommon_def)

section \<open>Claims about the registry\<close>

text \<open>
  C5.  \<^verbatim>\<open>add(namespace, name, cb)\<close> registers under that key a function that, on every
  invocation, calls the validator in force; when the validator returns a falsy value the
  function returns what the rejected callback returns, whatever the handler is, so the
  handler is not invoked; when the validator returns a truthy value the function returns
  what the handler returns; with the default hook the handler always runs.
\<close>

theorem add_wraps_handler:
  assumes "context_with_ioc (dbDriver R) context0 s = (context, s2)"
    and "root = (if root0 = JUndefined then JNull else root0)"
    and "args = (case args0 of None \<Rightarrow> [] | Some a \<Rightarrow> a)"
  shows "obj_get2 (resolvers (add namespace name cb R)) namespace name =
           Some (wrapped (dbDriver R) namespace name cb)
       \<and> (\<forall>v s3. validator hk namespace name root args context s2 = (Inr v, s3) \<and> \<not> truthy v \<longrightarrow>
             (\<forall>h. wrapped (dbDriver R) namespace name h hk root0 args0 context0 s =
                    rejected hk namespace name root args context s3))
       \<and> (\<forall>v s3. validator hk namespace name root args context s2 = (Inr v, s3) \<and> truthy v \<longrightarrow>
             wrapped (dbDriver R) namespace name cb hk root0 args0 context0 s =
               cb root args context s3)
       \<and> wrapped (dbDriver R) namespace name cb default_hook root0 args0 context0 s =
           cb root args context s2"
  unfolding assms(2,3) using assms(1)
  by (simp add: add_registers wrapped_def default_hook_def Let_def)

theorem add_wraps_handler_witness:
  "wrapped None ''Query'' ''q'' counting_handler deny_hook JUndefined None (Some 0) counter_state =
     (Inr (JStr ''denied''),
      set_field 0 ''ioc'' (JObj [(''resolver'', JThis), (''db'', JNull)]) counter_state)
   \<and> world (snd (wrapped None ''Query'' ''q'' counting_handler deny_hook JUndefined None (Some 0)
                    counter_state)) = 0
   \<and> world (snd (wrapped None ''Query'' ''q'' counting_handler default_hook JUndefined None (Some 0)
                    counter_state)) = 1"
proof -
  let ?s2 = "set_field 0 ''ioc'' (JObj [(''resolver'', JThis), (''db'', JNull)]) counter_state"
  have h1: "context_with_ioc (dbDriver (new_Resolver None)) (Some 0) counter_state = (0, ?s2)"
    by (simp add: context_with_ioc_Some new_Resolver_def)
  have h2: "JNull = (if JUndefined = JUndefined then JNull else JUndefined)" by simp
  have h3: "([] :: obj) = (case None of None \<Rightarrow> [] | Some a \<Rightarrow> a)" by simp
  have v: "validator deny_hook ''Query'' ''q'' JNull [] 0 ?s2 = (Inr (JBool False), ?s2)"
    by (simp add: deny_hook_def)
  from add_wraps_handler [where namespace = "''Query''" and name = "''q''"
      and cb = counting_handler and hk = deny_hook, OF h1 h2 h3] v
  show ?thesis
    by (simp add: new_Resolver_def deny_hook_def counting_handler_def set_field_def
        counter_state_def)
qed

text \<open>
  C10.  The function stored by \<^verbatim>\<open>add\<close> writes \<^verbatim>\<open>ioc\<close> on the context object that
  the caller passed, at the caller's address, before the validator runs on that same
  address: no object is created, every other property of the context object and every
  other object are as they were.
\<close>

theorem add_mutates_context_in_place:
  assumes "s2 = snd (context_with_ioc drv (Some a) s)"
    and "root = (if root0 = JUndefined then JNull else root0)"
    and "args = (case args0 of None \<Rightarrow> [] | Some x \<Rightarrow> x)"
  shows "wrapped drv namespace name cb hk root0 args0 (Some a) s =
           (case validator hk namespace name root args a s2 of
              (Inl e, s3) \<Rightarrow> (Inl e, s3)
            | (Inr passBefore, s3) \<Rightarrow>
                if \<not> truthy passBefore
                then rejected hk namespace name root args a s3
                else cb root args a s3)
       \<and> obj_get (objs s2 a) ''ioc'' =
           Some (JObj [(''resolver'', JThis), (''db'', case drv of None \<Rightarrow> JNull | Some d \<Rightarrow> db d)])
       \<and> filter (\<lambda>p. fst p \<noteq> ''ioc'') (objs s2 a) = filter (\<lambda>p. fst p \<noteq> ''ioc'') (objs s a)
       \<and> (\<forall>b. b \<noteq> a \<longrightarrow> objs s2 b = objs s b)
       \<and> next_addr s2 = next_addr s
       \<and> world s2 = world s"
  unfolding assms
  by (simp add: wrapped_def context_with_ioc_Some set_field_def obj_get_obj_set
      obj_set_other_entries Let_def)

theorem add_mutates_context_in_place_witness:
  "objs (snd (context_with_ioc None (Some 0) counter_state)) 0 =
     [(''user'', JStr ''u''), (''ioc'', JObj [(''resolver'', JThis), (''db'', JNull)])]
   \<and> objs (snd (context_with_ioc None (Some 0) counter_state)) 1 = [(''user'', JStr ''u'')]
   \<and> wrapped None ''Query'' ''q'' counting_handler deny_hook JUndefined None (Some 0) counter_state =
       (Inr (JStr ''denied''), snd (context_with_ioc None (Some 0) counter_state))"
proof -
  have h2: "JNull = (if JUndefined = JUndefined then JNull else JUndefined)" by simp
  have h3: "([] :: obj) = (case None of None \<Rightarrow> [] | Some x \<Rightarrow> x)" by simp
  from add_mutates_context_in_place [where drv = None and a = 0 and s = counter_state
      and namespace = "''Query''" and name = "''q''" and cb = counting_handler and hk = deny_hook
      and ?root0.0 = JUndefined and ?args0.0 = None, OF refl h2 h3]
  show ?thesis
    by (simp add: context_with_ioc_Some set_field_def counter_state_def deny_hook_def)
qed

section \<open>Claims about the relation resolvers, the parsers' errors and the names\<close>




text \<open>
  C6.  On the table name \<open> foo\<close> (a leading space) the parsers throw although the
  only clause \<open>a=1\<close> contains an operator: the key is created under the trimmed name
  and the clause is pushed under the name as given, so the push raises a TypeError,
  which parseArgsCommon passes on; parsePaginationExpression fails in the same way.
\<close>

theorem parsers_untrimmed_table_type_error:
  "split '';'' ''a=1'' = [''a=1'']
   \<and> regex_exec operators ''a=1'' = Some (1, ''='')
   \<and> parseFilterExpression ''a=1'' '' foo'' = Inl TypeError
   \<and> parseArgsCommon '' foo'' [(''filter'', JStr ''a=1'')] = Inl TypeError
   \<and> parsePaginationExpression ''limit=10'' '' foo'' = Inl TypeError"
  by (simp add: parseArgsCommon_def parseFilterExpression_def parsePaginationExpression_def
      split_def trim_def isWhiteSpace_def operators_def)

text \<open>
  C1.  In the example with the tables \<open>foo\<close> and \<open>bar\<close>, the resolver map built by
  getResolvers holds the keys \<open>FooPut\<close> and \<open>BarPut\<close> in its Mutation namespace,
  while the Mutation type built by the schema compiler holds the fields \<open>FooPutItem\<close>
  and \<open>BarPutItem\<close>.
\<close>

theorem mutation_resolver_name_differs:
  "(case getResolvers toCamelCase_example True
           (new_Resolver (Some (example_driver example_schema))) of
      Inl e \<Rightarrow> False
    | Inr R \<Rightarrow> map_option (map fst) (obj_get (resolvers R) ''Mutation'') = Some [''FooPut'', ''BarPut''])
   \<and> (case async_buildSchema toCamelCase_example
             (new_Compiler (Some example_schema) (Some (example_driver example_schema))) of
        Inl e \<Rightarrow> False
      | Inr C \<Rightarrow>
          map_option (map fst) (obj_get (types (schema C)) ''Mutation'') =
            Some [''FooPutItem'', ''BarPutItem''])"
proof -
  have r: "(case getResolvers toCamelCase_example True
           (new_Resolver (Some (example_driver example_schema))) of
      Inl e \<Rightarrow> False
    | Inr R \<Rightarrow> map_option (map fst) (obj_get (resolvers R) ''Mutation'') = Some [''FooPut'', ''BarPut''])"
    by (simp add: getResolvers_def new_Resolver_def example_driver_def example_schema_def
      addDefaultFieldsResolvers_def add_def obj_set2_def
      createForeignFieldsResolvers_def createReverseRelationsResolvers_def capital_def Let_def)
  have c: "(case async_buildSchema toCamelCase_example
             (new_Compiler (Some example_schema) (Some (example_driver example_schema))) of
        Inl e \<Rightarrow> False
      | Inr C \<Rightarrow>
          map_option (map fst) (obj_get (types (schema C)) ''Mutation'') =
            Some [''FooPutItem'', ''BarPutItem''])"
    by (simp add: async_buildSchema_def new_Compiler_def own_keys_def own_entries_def
      is_array_index_def mapDbTableToGraphqlType_def mapDbTableToGraphqlQuery_def mapDbTableToGraphqlFirstOf_def
      mapDbTableToGraphqlMutation_def mapDbTableToGraphqlInput_def getInputName_def
      schema_column_def example_driver_def example_schema_def example_type_def
      obj_set2_def capital_def page_fields_def Let_def)
  from r c show ?thesis by simp
qed

section \<open>Facts about the compiler passes\<close>

lemma keys_obj_set: "map fst (obj_set ps k v) = add_key (map fst ps) k"
proof (induction ps)
  case Nil
  show ?case by (simp add: add_key_def)
next
  case (Cons p ps)
  obtain k' v' where p: "p = (k', v')" by (cases p)
  show ?case
  proof (cases "k' = k")
    case True
    with p show ?thesis by (simp add: add_key_def)
  next
    case False
    with p Cons.IH show ?thesis by (simp add: add_key_def)
  qed
qed





lemma creation_order_Nil: "creation_order ks [] = ks"
  by (simp add: creation_order_def)

lemma creation_order_Cons: "creation_order ks (x # xs) = creation_order (add_key ks x) xs"
  by (simp add: creation_order_def)



lemma set_creation_order: "set (creation_order ks xs) = set ks \<union> set xs"
  by (induction xs arbitrary: ks) (auto simp add: creation_order_Nil creation_order_Cons add_key_def)

lemma schema_column_Some:
  "obj_get tables tablename = Some tbl \<Longrightarrow>
   schema_column (Some tables) tablename c = Inr (obj_get (columns tbl) c)"
  by (simp add: schema_column_def)




lemma input_fields_keys:
  assumes "obj_get tables tablename = Some tbl"
  shows "map fst (input_fields d (Some tables) tablename cols fs) =
           creation_order (map fst fs) (mapped_columns d tbl cols)"
proof (induction cols arbitrary: fs)
  case Nil
  show ?case by (simp add: mapped_columns_def creation_order_Nil)
next
  case (Cons c cols)
  show ?case
  proof (cases "mapDbColumnToGraphqlType d c (obj_get (columns tbl) c)")
    case (Inl err)
    then have "mapped_columns d tbl (c # cols) = mapped_columns d tbl cols"
      by (simp add: mapped_columns_def)
    with Inl Cons.IH [of fs] assms show ?thesis
      by (simp add: schema_column_Some)
  next
    case (Inr t)
    then have "mapped_columns d tbl (c # cols) = c # mapped_columns d tbl cols"
      by (simp add: mapped_columns_def)
    with Inr Cons.IH assms show ?thesis
      by (simp add: schema_column_Some creation_order_Cons keys_obj_set)
  qed
qed





















section \<open>Claims about the schema compiler\<close>






end
